theory Spec2Isabelle
  imports Main
begin

section \<open>Python values, errors and the parse state\<close>

text \<open>
  The program is \<^verbatim>\<open>dispy_markdown/core.py\<close>. A Python \<^verbatim>\<open>str\<close> is modelled by
  \<^typ>\<open>string\<close>, one \<^typ>\<open>char\<close> per code point, so the model covers the code points
  0 to 255. Every exception the code can raise is a value of \<open>error\<close>; a function that can
  raise returns \<open>error + 'a\<close> with \<open>Inl\<close> for the exception. \<open>ConfigurationError\<close> is the
  \<^verbatim>\<open>Exception\<close> that \<^verbatim>\<open>to_html\<close> raises itself, \<open>NoMatchingRule\<close> the parse engine's error,
  \<open>OutOfFuel\<close> the end of the recursion bound that the model gives the engine, and
  \<open>Unmodelled\<close> marks a value of a shape that no parse function produces and for which the
  model does not say what Python prints.
\<close>

datatype error =
    ConfigurationError
  | TypeError
  | AttributeError
  | KeyError
  | IndexError
  | ClassNotFound
  | NoMatchingRule
  | OutOfFuel
  | Unmodelled

text \<open>
  Nodes are plain dicts (\<^verbatim>\<open>{'id': capture[1]}\<close>), kept as association lists in
  insertion order. \<open>VMethod\<close> is a bound method of a dict, the only thing attribute access
  on a dict can give.
\<close>

datatype pyval =
    VNone
  | VBool bool
  | VStr string
  | VList "pyval list"
  | VDict "(string \<times> pyval) list"
  | VMethod string

type_synonym node = pyval

text \<open>\<^verbatim>\<open>node[key]\<close>: KeyError on a missing key, TypeError on a value that is no dict.\<close>

fun getitem :: "pyval \<Rightarrow> string \<Rightarrow> error + pyval" where
  "getitem (VDict d) key = (case map_of d key of None \<Rightarrow> Inl KeyError | Some v \<Rightarrow> Inr v)"
| "getitem _ key = Inl TypeError"

definition dict_methods :: "string list" where
  "dict_methods = [''clear'', ''copy'', ''fromkeys'', ''get'', ''items'', ''keys'', ''pop'',
     ''popitem'', ''setdefault'', ''update'', ''values'']"

text \<open>
  \<^verbatim>\<open>node.name\<close>: a dict has its methods as attributes and nothing else; its entries are
  not attributes, so any other name raises AttributeError.
\<close>

fun py_getattr :: "pyval \<Rightarrow> string \<Rightarrow> error + pyval" where
  "py_getattr (VDict d) name =
     (if name \<in> set dict_methods then Inr (VMethod name) else Inl AttributeError)"
| "py_getattr _ name = Inl AttributeError"

text \<open>\<^verbatim>\<open>d[key] = v\<close> on a dict: an existing key keeps its place, a new one goes last.\<close>

fun dict_set :: "(string \<times> 'v) list \<Rightarrow> string \<Rightarrow> 'v \<Rightarrow> (string \<times> 'v) list" where
  "dict_set [] key v = [(key, v)]"
| "dict_set ((k, w) # d) key v = (if k = key then (k, v) # d else (k, w) # dict_set d key v)"

text \<open>\<^verbatim>\<open>sep.join(xs)\<close>\<close>

fun join :: "string \<Rightarrow> string list \<Rightarrow> string" where
  "join sep [] = []"
| "join sep [x] = x"
| "join sep (x # y # ys) = x @ sep @ join sep (y # ys)"

text \<open>\<^verbatim>\<open>s.split(sep)\<close> for a one-character separator: the pieces between the separators.\<close>

fun split_on :: "char \<Rightarrow> string \<Rightarrow> string list" where
  "split_on sep [] = [[]]"
| "split_on sep (c # cs) =
     (if c = sep then [] # split_on sep cs
      else (case split_on sep cs of [] \<Rightarrow> [[c]] | w # ws \<Rightarrow> (c # w) # ws))"

text \<open>
  The state dict that \<^verbatim>\<open>to_html\<close> builds and every rule receives. \<open>prev_capture\<close> is the
  entry the parse engine keeps for itself: the text of the previous capture, which it hands to
  \<^verbatim>\<open>match\<close> as \<^verbatim>\<open>previous_source\<close>. A missing \<^verbatim>\<open>css_module_names\<close> is \<open>None\<close>.
\<close>

record state =
  inline :: bool
  in_quote :: bool
  in_emphasis :: bool
  escape_html :: bool
  css_module_names :: "(string \<times> string) list option"
  discord_callback :: "string \<Rightarrow> (node \<Rightarrow> error + string) option"
  prev_capture :: string

text \<open>Truth value of a state dict passed where a flag is expected: it has entries, so it is true.\<close>

definition state_truthy :: "state \<Rightarrow> bool" where
  "state_truthy s = True"

section \<open>The sanitizer\<close>

text \<open>
  Modelled from the spec: \<^verbatim>\<open>md.sanitize_text\<close> of the \<^verbatim>\<open>simpy_markdown\<close> package, which is
  not part of this repository. The spec gives it as "HTML-escapes \<^verbatim>\<open>&<>"'\<close>"; the entity
  written for each of the five characters is the usual one.
\<close>

fun sanitize_char :: "char \<Rightarrow> string" where
  "sanitize_char c =
     (if c = CHR ''&'' then ''&amp;''
      else if c = CHR ''<'' then ''&lt;''
      else if c = CHR ''>'' then ''&gt;''
      else if c = CHR 0x22 then ''&quot;''
      else if c = CHR 0x27 then ''&#x27;''
      else [c])"

definition sanitize_text :: "string \<Rightarrow> string" where
  "sanitize_text text = concat (map sanitize_char text)"

section \<open>The HTML tag builder\<close>

text \<open>
  \<^verbatim>\<open>' '.join(state['css_module_names'].get(cl, cl) for cl in attributes['class'])\<close>:
  the loop variable runs over the string \<^verbatim>\<open>attributes['class']\<close> itself, that is over its
  characters, each looked up as a one-character key.
\<close>

definition remap_class :: "(string \<times> string) list \<Rightarrow> string \<Rightarrow> string" where
  "remap_class css cls =
     join '' '' (map (\<lambda>cl. case map_of css [cl] of None \<Rightarrow> [cl] | Some v \<Rightarrow> v) cls)"

text \<open>
  \<^verbatim>\<open>html_tag(tag_name, content, attributes=None, is_closed=True, state=None)\<close>.
  An attribute whose value is the empty string is falsy and left out; \<open>is_closed\<close> is the
  truth value of whatever the caller passed fourth.
\<close>

definition html_tag ::
  "string \<Rightarrow> string \<Rightarrow> (string \<times> string) list option \<Rightarrow> bool \<Rightarrow> state option \<Rightarrow> string" where
  "html_tag tag_name content attributes is_closed state =
     (let attributes0 = (case attributes of None \<Rightarrow> [] | Some a \<Rightarrow> a);
          css = (case state of None \<Rightarrow> None | Some s \<Rightarrow> css_module_names s);
          attributes1 =
            (case (map_of attributes0 ''class'', css) of
               (Some cls, Some names) \<Rightarrow>
                 if cls \<noteq> [] \<and> names \<noteq> []
                 then dict_set attributes0 ''class'' (remap_class names cls)
                 else attributes0
             | _ \<Rightarrow> attributes0);
          attr_string =
            join '' ''
              (map (\<lambda>(attr, v). sanitize_text attr @ [CHR ''='', CHR 0x22] @ sanitize_text v @ [CHR 0x22])
                 (filter (\<lambda>(attr, v). v \<noteq> []) attributes1));
          unclosed_tag = ''<'' @ tag_name @ '' '' @ attr_string @ ''>''
      in if is_closed then unclosed_tag @ content @ ''</'' @ tag_name @ ''>'' else unclosed_tag)"

text \<open>
  The remap the spec describes, written from its words for comparison: the class value is cut
  at spaces and each whole token is looked up.
\<close>

definition remap_tokens_spec :: "(string \<times> string) list \<Rightarrow> string \<Rightarrow> string" where
  "remap_tokens_spec css cls =
     join '' '' (map (\<lambda>tok. case map_of css tok of None \<Rightarrow> tok | Some v \<Rightarrow> v) (split_on CHR '' '' cls))"

section \<open>Regular expressions of the rules\<close>

text \<open>
  Each pattern is anchored with \<^verbatim>\<open>^\<close> and used through \<^verbatim>\<open>re.search\<close>, so it matches at
  the start of the source or not at all. A capture is the list of its groups,
  \<^verbatim>\<open>capture[0]\<close> first; a group that took no part in the match is \<open>None\<close>.
\<close>

type_synonym capture = "string option list"

text \<open>\<^verbatim>\<open>capture[i]\<close> as a Python value.\<close>

definition group_val :: "capture \<Rightarrow> nat \<Rightarrow> error + pyval" where
  "group_val cap i =
     (if i < length cap then Inr (case cap ! i of None \<Rightarrow> VNone | Some s \<Rightarrow> VStr s)
      else Inl IndexError)"

abbreviation NL :: char where "NL \<equiv> CHR 0x0A"

text \<open>\<^verbatim>\<open>[0-9]\<close>; also \<^verbatim>\<open>\d\<close>, whose only members below code point 256 are these.\<close>

definition is_digit :: "char \<Rightarrow> bool" where
  "is_digit c = (let n = (of_char c :: nat) in 48 \<le> n \<and> n \<le> 57)"

text \<open>\<^verbatim>\<open>\s\<close> on a \<^verbatim>\<open>str\<close> pattern, below code point 256.\<close>

definition is_space :: "char \<Rightarrow> bool" where
  "is_space c = ((of_char c :: nat) \<in> {9, 10, 11, 12, 13, 28, 29, 30, 31, 32, 133, 160})"

text \<open>\<^verbatim>\<open>\w\<close> on a \<^verbatim>\<open>str\<close> pattern, below code point 256: alphanumeric or underscore.\<close>

definition is_word :: "char \<Rightarrow> bool" where
  "is_word c =
     (let n = (of_char c :: nat)
      in (48 \<le> n \<and> n \<le> 57) \<or> (65 \<le> n \<and> n \<le> 90) \<or> n = 95 \<or> (97 \<le> n \<and> n \<le> 122)
         \<or> n \<in> {170, 178, 179, 181, 185, 186, 188, 189, 190}
         \<or> (192 \<le> n \<and> n \<le> 214) \<or> (216 \<le> n \<and> n \<le> 246) \<or> 248 \<le> n)"

text \<open>
  The tail \<^verbatim>\<open>([0-9]*)>\<close> shared by the three mention patterns, after the prefix \<open>pre\<close>
  already matched: the longest run of digits, then the closing bracket. The run may be empty.
  A shorter run cannot help, since the character after it would be a digit.
\<close>

definition id_close :: "string \<Rightarrow> string \<Rightarrow> capture option" where
  "id_close pre r =
     (let ds = takeWhile is_digit r
      in case dropWhile is_digit r of
           c # _ \<Rightarrow> if c = CHR ''>'' then Some [Some (pre @ ds @ ''>''), Some ds] else None
         | [] \<Rightarrow> None)"

text \<open>
  \<^verbatim>\<open>DiscordUser.match\<close>: \<^verbatim>\<open>re.search(r'^<@!?([0-9]*)>', source)\<close>. The optional
  \<^verbatim>\<open>!\<close> is taken when it is there; without it the next character would have to be a digit
  or the closing bracket.
\<close>

definition DiscordUser_match :: "string \<Rightarrow> capture option" where
  "DiscordUser_match source =
     (case source of
        c1 # c2 # r \<Rightarrow>
          if c1 = CHR ''<'' \<and> c2 = CHR ''@'' then
            (case r of
               [] \<Rightarrow> None
             | c3 # r' \<Rightarrow> if c3 = CHR ''!'' then id_close ''<@!'' r' else id_close ''<@'' r)
          else None
      | _ \<Rightarrow> None)"

text \<open>\<^verbatim>\<open>DiscordChannel.match\<close>: \<^verbatim>\<open>re.search(r'^<#?([0-9]*)>', source)\<close>.\<close>

definition DiscordChannel_match :: "string \<Rightarrow> capture option" where
  "DiscordChannel_match source =
     (case source of
        c1 # r \<Rightarrow>
          if c1 = CHR ''<'' then
            (case r of
               [] \<Rightarrow> None
             | c2 # r' \<Rightarrow> if c2 = CHR ''#'' then id_close ''<#'' r' else id_close ''<'' r)
          else None
      | _ \<Rightarrow> None)"

text \<open>\<^verbatim>\<open>DiscordRole.match\<close>: \<^verbatim>\<open>re.search(r'^<@&([0-9]*)>', source)\<close>.\<close>

definition DiscordRole_match :: "string \<Rightarrow> capture option" where
  "DiscordRole_match source =
     (case source of
        c1 # c2 # c3 # r \<Rightarrow>
          if c1 = CHR ''<'' \<and> c2 = CHR ''@'' \<and> c3 = CHR ''&'' then id_close ''<@&'' r else None
      | _ \<Rightarrow> None)"

text \<open>
  \<^verbatim>\<open>DiscordEmoji.match\<close>: \<^verbatim>\<open>re.search(r'^<(a?):(\w+):(\d+)>', source)\<close>. After
  \<open>pre\<close> (\<^verbatim>\<open><a:\<close> or \<^verbatim>\<open><:\<close>) comes the longest run of word characters, which must not
  be empty, a colon, the longest run of digits, not empty, and the closing bracket. A colon is
  no word character and the bracket is no digit, so only the longest runs can match.
\<close>

definition emoji_tail :: "string \<Rightarrow> string \<Rightarrow> string \<Rightarrow> capture option" where
  "emoji_tail pre a r =
     (let name = takeWhile is_word r
      in case dropWhile is_word r of
           c # r1 \<Rightarrow>
             if name \<noteq> [] \<and> c = CHR '':'' then
               (let ident = takeWhile is_digit r1
                in case dropWhile is_digit r1 of
                     d # _ \<Rightarrow>
                       if ident \<noteq> [] \<and> d = CHR ''>''
                       then Some [Some (pre @ name @ '':'' @ ident @ ''>''), Some a, Some name, Some ident]
                       else None
                   | [] \<Rightarrow> None)
             else None
         | [] \<Rightarrow> None)"

definition DiscordEmoji_match :: "string \<Rightarrow> capture option" where
  "DiscordEmoji_match source =
     (case source of
        c1 # c2 # r \<Rightarrow>
          if c1 = CHR ''<'' \<and> c2 = CHR '':'' then emoji_tail ''<:'' [] r
          else if c1 = CHR ''<'' \<and> c2 = CHR ''a'' then
            (case r of
               c3 # r' \<Rightarrow> if c3 = CHR '':'' then emoji_tail ''<a:'' ''a'' r' else None
             | [] \<Rightarrow> None)
          else None
      | _ \<Rightarrow> None)"

text \<open>\<^verbatim>\<open>re.search(r'^@everyone', source)\<close> and \<^verbatim>\<open>re.search(r'^@here', source)\<close>.\<close>

definition literal_match :: "string \<Rightarrow> string \<Rightarrow> capture option" where
  "literal_match lit source = (if take (length lit) source = lit then Some [Some lit] else None)"

definition DiscordEveryone_match :: "string \<Rightarrow> capture option" where
  "DiscordEveryone_match source = literal_match ''@everyone'' source"

definition DiscordHere_match :: "string \<Rightarrow> capture option" where
  "DiscordHere_match source = literal_match ''@here'' source"

text \<open>
  \<^verbatim>\<open>Text.match\<close>:
  \<^verbatim>\<open>re.search(r'^[\s\S]+?(?=[^0-9A-Za-z\s\u00c0-\uffff-]|\n\n|\n|\w+:\S|$)', source)\<close>.
  \<open>text_special\<close> is the negated class of the lookahead.
\<close>

definition text_special :: "char \<Rightarrow> bool" where
  "text_special c =
     (let n = (of_char c :: nat)
      in \<not> ((48 \<le> n \<and> n \<le> 57) \<or> (65 \<le> n \<and> n \<le> 90) \<or> (97 \<le> n \<and> n \<le> 122)
             \<or> is_space c \<or> 192 \<le> n \<or> c = CHR ''-''))"

text \<open>
  \<^verbatim>\<open>\w+:\S\<close> at the head of \<open>r\<close>: the word run must be the longest one, since the
  character after it has to be the colon.
\<close>

definition word_colon :: "string \<Rightarrow> bool" where
  "word_colon r =
     (takeWhile is_word r \<noteq> [] \<and>
      (case dropWhile is_word r of
         c1 # c2 # _ \<Rightarrow> c1 = CHR '':'' \<and> \<not> is_space c2
       | _ \<Rightarrow> False))"

text \<open>
  The lookahead at the head of \<open>r\<close>, one disjunct per alternative. Without
  \<^verbatim>\<open>re.MULTILINE\<close>, \<^verbatim>\<open>$\<close> holds at the end of the string and before a newline that
  ends the string.
\<close>

definition text_lookahead :: "string \<Rightarrow> bool" where
  "text_lookahead r =
     ((case r of c # _ \<Rightarrow> text_special c | [] \<Rightarrow> False)
      \<or> take 2 r = [NL, NL]
      \<or> take 1 r = [NL]
      \<or> word_colon r
      \<or> (r = [] \<or> r = [NL]))"

text \<open>
  \<^verbatim>\<open>[\s\S]+?\<close> is lazy: after the first character it takes one more character at a time
  until the lookahead holds. \<open>text_scan r\<close> counts the characters taken after the first.
\<close>

fun text_scan :: "string \<Rightarrow> nat" where
  "text_scan [] = 0"
| "text_scan (c # r) = (if text_lookahead (c # r) then 0 else Suc (text_scan r))"

definition Text_match :: "string \<Rightarrow> capture option" where
  "Text_match source =
     (case source of
        [] \<Rightarrow> None
      | c # r \<Rightarrow> Some [Some (c # take (text_scan r) r)])"

section \<open>Rules\<close>

text \<open>
  A rule object: its \<^verbatim>\<open>order\<close> and its three static methods. \<^verbatim>\<open>match(source, state,
  previous_source)\<close> gives a capture or \<^verbatim>\<open>None\<close>; \<^verbatim>\<open>parse(capture, parse, state)\<close> gets
  the engine's nested parse as a callback and gives a node or a list of nodes; \<^verbatim>\<open>html(node,
  output, state)\<close> gets the engine's renderer as a callback. The state dict is shared by
  reference in Python; here a function that can write to it returns it.
\<close>

type_synonym nested = "string \<Rightarrow> state \<Rightarrow> error + pyval list \<times> state"

type_synonym renderer = "pyval \<Rightarrow> state \<Rightarrow> error + string"

record rule =
  rule_order :: nat
  rule_match :: "string \<Rightarrow> state \<Rightarrow> string \<Rightarrow> error + capture option"
  rule_parse :: "capture \<Rightarrow> nested \<Rightarrow> state \<Rightarrow> error + pyval \<times> state"
  rule_html :: "node \<Rightarrow> renderer \<Rightarrow> state \<Rightarrow> error + string"

text \<open>Truth value of a Python value.\<close>

fun truthy :: "pyval \<Rightarrow> bool" where
  "truthy VNone = False"
| "truthy (VBool b) = b"
| "truthy (VStr s) = (s \<noteq> [])"
| "truthy (VList xs) = (xs \<noteq> [])"
| "truthy (VDict d) = (d \<noteq> [])"
| "truthy (VMethod m) = True"

text \<open>A value inside an f-string. The text of a list, a dict or a method is not modelled.\<close>

fun format_val :: "pyval \<Rightarrow> error + string" where
  "format_val (VStr s) = Inr s"
| "format_val VNone = Inr ''None''"
| "format_val (VBool b) = Inr (if b then ''True'' else ''False'')"
| "format_val _ = Inl Unmodelled"

subsection \<open>Text\<close>

text \<open>
  \<^verbatim>\<open>Text.html\<close>: the content sanitized when \<^verbatim>\<open>escape_html\<close> is set, as it is otherwise.
\<close>

definition Text_html :: "node \<Rightarrow> renderer \<Rightarrow> state \<Rightarrow> error + string" where
  "Text_html node output st =
     (case getitem node ''content'' of
        Inl e \<Rightarrow> Inl e
      | Inr (VStr s) \<Rightarrow> if escape_html st then Inr (sanitize_text s) else Inr s
      | Inr _ \<Rightarrow> Inl Unmodelled)"

subsection \<open>Mentions, emoji and broadcast tags\<close>

text \<open>
  \<^verbatim>\<open>discord_callback_defaults\<close>: \<^verbatim>\<open>'@' + md.sanitize_text(node['id'])\<close> and its like.
\<close>

definition id_callback :: "string \<Rightarrow> node \<Rightarrow> error + string" where
  "id_callback sigil node =
     (case getitem node ''id'' of
        Inl e \<Rightarrow> Inl e
      | Inr (VStr s) \<Rightarrow> Inr (sigil @ sanitize_text s)
      | Inr _ \<Rightarrow> Inl Unmodelled)"

definition discord_callback_defaults :: "string \<Rightarrow> (node \<Rightarrow> error + string) option" where
  "discord_callback_defaults =
     map_of [(''user'', id_callback ''@''),
             (''channel'', id_callback ''#''),
             (''role'', id_callback ''&''),
             (''everyone'', \<lambda>node. Inr ''@everyone''),
             (''here'', \<lambda>node. Inr ''@here'')]"

text \<open>\<^verbatim>\<open>{'id': capture[1]}\<close>, the \<^verbatim>\<open>parse\<close> of the three mention rules.\<close>

definition id_parse :: "capture \<Rightarrow> nested \<Rightarrow> state \<Rightarrow> error + pyval \<times> state" where
  "id_parse capture parse st =
     (case group_val capture 1 of
        Inl e \<Rightarrow> Inl e
      | Inr v \<Rightarrow> Inr (VDict [(''id'', v)], st))"

text \<open>
  \<^verbatim>\<open>html_tag('span', state['discord_callback'][kind](node), {'class': cls}, state)\<close>:
  the state is the fourth positional argument, which is \<^verbatim>\<open>is_closed\<close>; the parameter
  \<^verbatim>\<open>state\<close> of \<^verbatim>\<open>html_tag\<close> keeps its default \<^verbatim>\<open>None\<close>.
\<close>

definition mention_html :: "string \<Rightarrow> string \<Rightarrow> node \<Rightarrow> renderer \<Rightarrow> state \<Rightarrow> error + string" where
  "mention_html kind cls node output st =
     (case discord_callback st kind of
        None \<Rightarrow> Inl KeyError
      | Some callback \<Rightarrow>
          (case callback node of
             Inl e \<Rightarrow> Inl e
           | Inr content \<Rightarrow>
               Inr (html_tag ''span'' content (Some [(''class'', cls)]) (state_truthy st) None)))"

definition DiscordUser :: "nat \<Rightarrow> rule" where
  "DiscordUser order =
     \<lparr>rule_order = order,
      rule_match = (\<lambda>source st previous_source. Inr (DiscordUser_match source)),
      rule_parse = id_parse,
      rule_html = mention_html ''user'' ''d-mention d-user''\<rparr>"

definition DiscordChannel :: "nat \<Rightarrow> rule" where
  "DiscordChannel order =
     \<lparr>rule_order = order,
      rule_match = (\<lambda>source st previous_source. Inr (DiscordChannel_match source)),
      rule_parse = id_parse,
      rule_html = mention_html ''channel'' ''d-mention d-channel''\<rparr>"

definition DiscordRole :: "nat \<Rightarrow> rule" where
  "DiscordRole order =
     \<lparr>rule_order = order,
      rule_match = (\<lambda>source st previous_source. Inr (DiscordRole_match source)),
      rule_parse = id_parse,
      rule_html = mention_html ''role'' ''d-mention d-role''\<rparr>"

text \<open>
  \<^verbatim>\<open>DiscordEmoji.parse\<close>:
  \<^verbatim>\<open>{'animated': capture[1] == 'a', 'name': capture[2], 'id': capture[3]}\<close>.
\<close>

definition DiscordEmoji_parse :: "capture \<Rightarrow> nested \<Rightarrow> state \<Rightarrow> error + pyval \<times> state" where
  "DiscordEmoji_parse capture parse st =
     (case group_val capture 1 of
        Inl e \<Rightarrow> Inl e
      | Inr a \<Rightarrow>
          (case group_val capture 2 of
             Inl e \<Rightarrow> Inl e
           | Inr name \<Rightarrow>
               (case group_val capture 3 of
                  Inl e \<Rightarrow> Inl e
                | Inr ident \<Rightarrow>
                    Inr (VDict [(''animated'', VBool (a = VStr ''a'')),
                                (''name'', name),
                                (''id'', ident)], st))))"

text \<open>
  \<^verbatim>\<open>DiscordEmoji.html\<close>: an \<^verbatim>\<open>img\<close> tag with \<^verbatim>\<open>is_closed\<close> false; here the state does
  reach the parameter \<^verbatim>\<open>state\<close>.
\<close>

definition DiscordEmoji_html :: "node \<Rightarrow> renderer \<Rightarrow> state \<Rightarrow> error + string" where
  "DiscordEmoji_html node output st =
     (case getitem node ''animated'' of
        Inl e \<Rightarrow> Inl e
      | Inr animated \<Rightarrow>
          (case getitem node ''id'' of
             Inl e \<Rightarrow> Inl e
           | Inr ident \<Rightarrow>
               (case format_val ident of
                  Inl e \<Rightarrow> Inl e
                | Inr ident_text \<Rightarrow>
                    (case getitem node ''name'' of
                       Inl e \<Rightarrow> Inl e
                     | Inr name \<Rightarrow>
                         (case format_val name of
                            Inl e \<Rightarrow> Inl e
                          | Inr name_text \<Rightarrow>
                              Inr (html_tag ''img'' []
                                (Some [(''class'',
                                          ''d-emoji'' @ (if truthy animated then '' d-emoji-animated'' else [])),
                                       (''src'',
                                          ''https://cdn.discordapp.com/emojis/'' @ ident_text @ ''.''
                                            @ (if truthy animated then ''gif'' else ''png'')),
                                       (''alt'', '':'' @ name_text @ '':'')])
                                False (Some st)))))))"

definition DiscordEmoji :: "nat \<Rightarrow> rule" where
  "DiscordEmoji order =
     \<lparr>rule_order = order,
      rule_match = (\<lambda>source st previous_source. Inr (DiscordEmoji_match source)),
      rule_parse = DiscordEmoji_parse,
      rule_html = DiscordEmoji_html\<rparr>"

text \<open>\<^verbatim>\<open>DiscordEveryone\<close> and \<^verbatim>\<open>DiscordHere\<close>: \<^verbatim>\<open>parse\<close> returns the empty dict.\<close>

definition empty_parse :: "capture \<Rightarrow> nested \<Rightarrow> state \<Rightarrow> error + pyval \<times> state" where
  "empty_parse capture parse st = Inr (VDict [], st)"

definition DiscordEveryone :: "nat \<Rightarrow> rule" where
  "DiscordEveryone order =
     \<lparr>rule_order = order,
      rule_match = (\<lambda>source st previous_source. Inr (DiscordEveryone_match source)),
      rule_parse = empty_parse,
      rule_html = mention_html ''everyone'' ''d-mention d-user''\<rparr>"

definition DiscordHere :: "nat \<Rightarrow> rule" where
  "DiscordHere order =
     \<lparr>rule_order = order,
      rule_match = (\<lambda>source st previous_source. Inr (DiscordHere_match source)),
      rule_parse = empty_parse,
      rule_html = mention_html ''here'' ''d-mention d-user''\<rparr>"

section \<open>Block quote\<close>

definition is_blank :: "char \<Rightarrow> bool" where
  "is_blank c = (c = CHR '' '')"

text \<open>
  \<^verbatim>\<open>re.search(r'^$|\n *$', previous_source)\<close>. Without \<^verbatim>\<open>re.MULTILINE\<close>, \<^verbatim>\<open>$\<close> holds at
  the end and before a newline that ends the string. So \<^verbatim>\<open>^$\<close> holds of the empty string
  and of a lone newline, and \<^verbatim>\<open>\n *$\<close> is found when, spaces at the end set aside, the
  string ends with a newline.
\<close>

definition line_boundary :: "string \<Rightarrow> bool" where
  "line_boundary previous_source =
     ((previous_source = [] \<or> previous_source = [NL])
      \<or> (case dropWhile is_blank (rev previous_source) of c # _ \<Rightarrow> c = NL | [] \<Rightarrow> False))"

text \<open>
  \<^verbatim>\<open>re.search(r'^( *>>> ([\s\S]*))|^( *> [^\n]*(\n *> [^\n]*)*\n?)', source)\<close>.
  The first alternative takes the whole source. The second takes the first line when it starts
  with spaces, the quote sign and a space, then every following line of that form, then one more
  newline if there is one. Group 4 is the last repetition, a newline and a line.
\<close>

definition is_quote_line :: "string \<Rightarrow> bool" where
  "is_quote_line l = (take 2 (dropWhile is_blank l) = ''> '')"

definition quote_regex :: "string \<Rightarrow> capture option" where
  "quote_regex source =
     (if take 4 (dropWhile is_blank source) = ''>>> ''
      then Some [Some source, Some source, Some (drop 4 (dropWhile is_blank source)), None, None]
      else
        (let ls = split_on NL source;
             qs = takeWhile is_quote_line ls;
             whole = join [NL] qs @ (if length qs < length ls then [NL] else [])
         in if qs = [] then None
            else Some [Some whole, None, None, Some whole,
                       (if 2 \<le> length qs then Some (NL # last qs) else None)]))"

text \<open>
  \<^verbatim>\<open>BlockQuote.match\<close>:
  \<^verbatim>\<open>None if (not re.search(..., previous_source) or state.get('in_quote')) else re.search(..., source)\<close>.
\<close>

definition BlockQuote_match :: "string \<Rightarrow> state \<Rightarrow> string \<Rightarrow> capture option" where
  "BlockQuote_match source st previous_source =
     (if \<not> line_boundary previous_source \<or> in_quote st then None else quote_regex source)"

text \<open>\<^verbatim>\<open>re.search(r'^ *>>> ?', all_)\<close>\<close>

definition is_block :: "string \<Rightarrow> bool" where
  "is_block all' = (take 3 (dropWhile is_blank all') = ''>>>'')"

text \<open>An optional space at the head of a string, removed.\<close>

fun drop_one_blank :: "string \<Rightarrow> string" where
  "drop_one_blank [] = []"
| "drop_one_blank (c # cs) = (if c = CHR '' '' then cs else c # cs)"

text \<open>
  \<^verbatim>\<open>re.sub(r'^ *>>> ?', '', all_, count=1)\<close>: without \<^verbatim>\<open>re.MULTILINE\<close> the pattern can only
  match at the start of the string.
\<close>

definition strip_block_marker :: "string \<Rightarrow> string" where
  "strip_block_marker all' =
     (if take 3 (dropWhile is_blank all') = ''>>>''
      then drop_one_blank (drop 3 (dropWhile is_blank all'))
      else all')"

text \<open>
  \<^verbatim>\<open>re.sub(r'^ *> ?', '', all_, flags=re.MULTILINE, count=0)\<close>: with \<^verbatim>\<open>re.MULTILINE\<close> the
  pattern is tried at the start of every line, and it cannot run over a newline.
\<close>

definition strip_line_marker :: "string \<Rightarrow> string" where
  "strip_line_marker l =
     (if take 1 (dropWhile is_blank l) = ''>''
      then drop_one_blank (drop 1 (dropWhile is_blank l))
      else l)"

definition strip_line_markers :: "string \<Rightarrow> string" where
  "strip_line_markers all' = join [NL] (map strip_line_marker (split_on NL all'))"

text \<open>
  \<^verbatim>\<open>BlockQuote.parse\<close>. \<open>quote_content\<close> is the \<^verbatim>\<open>content\<close> of the source: the capture
  with the markers removed, by the first \<^verbatim>\<open>re.sub\<close> for the block form and by the second
  otherwise. \<^verbatim>\<open>state['in_quote'] = True\<close> writes to the caller's dict; the nested parse gets
  that dict, and the state returned is what the nested parse left of it.
\<close>

definition quote_content :: "string \<Rightarrow> string" where
  "quote_content all' = (if is_block all' then strip_block_marker all' else strip_line_markers all')"

definition BlockQuote_parse :: "capture \<Rightarrow> nested \<Rightarrow> state \<Rightarrow> error + pyval \<times> state" where
  "BlockQuote_parse capture parse st =
     (case group_val capture 0 of
        Inl e \<Rightarrow> Inl e
      | Inr (VStr all') \<Rightarrow>
          (let content = quote_content all';
               st1 = st\<lparr>in_quote := True\<rparr>
           in case parse content st1 of
                Inl e \<Rightarrow> Inl e
              | Inr (nodes, st2) \<Rightarrow>
                  Inr (VDict [(''content'', VList nodes), (''type'', VStr ''block_quote'')], st2))
      | Inr _ \<Rightarrow> Inl TypeError)"

section \<open>Emphasis\<close>

text \<open>
  \<^verbatim>\<open>super()\<close> without arguments takes the first argument of the function it stands in as
  the instance, and raises TypeError unless that argument is an instance or a subclass of the
  class. \<^verbatim>\<open>Em.parse\<close> is a static method: its first argument is the capture, a match object
  and no \<^verbatim>\<open>Em\<close>.
\<close>

definition capture_is_instance_of_Em :: "capture \<Rightarrow> bool" where
  "capture_is_instance_of_Em capture = False"

definition zero_argument_super :: "bool \<Rightarrow> error + unit" where
  "zero_argument_super first_argument_fits = (if first_argument_fits then Inr () else Inl TypeError)"

text \<open>
  \<^verbatim>\<open>Em.parse\<close>; \<open>base_parse\<close> is the \<^verbatim>\<open>parse\<close> of \<^verbatim>\<open>md.default_classes['em']\<close>. The flag is
  set on \<^verbatim>\<open>state.copy()\<close>, so the caller's state is returned as it came.
\<close>

definition Em_parse ::
  "(capture \<Rightarrow> nested \<Rightarrow> state \<Rightarrow> error + pyval \<times> state)
     \<Rightarrow> capture \<Rightarrow> nested \<Rightarrow> state \<Rightarrow> error + pyval \<times> state" where
  "Em_parse base_parse capture parse st =
     (let state_copy = st\<lparr>in_emphasis := True\<rparr>
      in case zero_argument_super (capture_is_instance_of_Em capture) of
           Inl e \<Rightarrow> Inl e
         | Inr u \<Rightarrow>
             (case base_parse capture parse state_copy of
                Inl e \<Rightarrow> Inl e
              | Inr (parsed, st') \<Rightarrow>
                  if in_emphasis st
                  then (case getitem parsed ''content'' of Inl e \<Rightarrow> Inl e | Inr c \<Rightarrow> Inr (c, st))
                  else Inr (parsed, st)))"

section \<open>Code block\<close>

text \<open>
  The syntax highlighter, \<^verbatim>\<open>pygments\<close>, is not part of the repository and is taken as given. A
  lexer is named by a string. \<^verbatim>\<open>get_lexer_by_name\<close> may raise, or give a lexer, or give
  nothing (which the code tests for); \<^verbatim>\<open>highlight\<close> gives markup.
\<close>

record pygments =
  get_lexer_by_name :: "string \<Rightarrow> error + string option"
  highlight :: "string \<Rightarrow> string \<Rightarrow> error + string"

text \<open>
  \<^verbatim>\<open>CodeBlock.parse\<close>:
  \<^verbatim>\<open>{'lang': (capture[2] or '').strip(), 'content': capture[3] or '', 'in_quote': state.get('in_quote')}\<close>.
  \<^verbatim>\<open>str.strip\<close> removes white space at both ends.
\<close>

definition strip :: "string \<Rightarrow> string" where
  "strip s = rev (dropWhile is_space (rev (dropWhile is_space s)))"

definition or_empty :: "pyval \<Rightarrow> error + string" where
  "or_empty v = (case v of VStr s \<Rightarrow> Inr s | VNone \<Rightarrow> Inr [] | _ \<Rightarrow> Inl Unmodelled)"

definition CodeBlock_parse :: "capture \<Rightarrow> nested \<Rightarrow> state \<Rightarrow> error + pyval \<times> state" where
  "CodeBlock_parse capture parse st =
     (case group_val capture 2 of
        Inl e \<Rightarrow> Inl e
      | Inr g2 \<Rightarrow>
          (case or_empty g2 of
             Inl e \<Rightarrow> Inl e
           | Inr lang \<Rightarrow>
               (case group_val capture 3 of
                  Inl e \<Rightarrow> Inl e
                | Inr g3 \<Rightarrow>
                    (case or_empty g3 of
                       Inl e \<Rightarrow> Inl e
                     | Inr content \<Rightarrow>
                         Inr (VDict [(''lang'', VStr (strip lang)),
                                     (''content'', VStr content),
                                     (''in_quote'', VBool (in_quote st))], st)))))"

text \<open>
  The class remap of highlighted markup:
  \<^verbatim>\<open>re.sub(r'<span class="([a-z0-9-_ ]+)">', lambda m: m[0].replace(m[0], ' '.join(names.get(cl, cl) for cl in m[1].split())), code)\<close>.
  Every opening span tag is replaced by its remapped class list. \<open>span_at\<close> gives the class
  run and the length of the match when the pattern matches at the head of the string.
\<close>

definition is_class_char :: "char \<Rightarrow> bool" where
  "is_class_char c =
     (let n = (of_char c :: nat)
      in (97 \<le> n \<and> n \<le> 122) \<or> (48 \<le> n \<and> n \<le> 57) \<or> c = CHR ''-'' \<or> c = CHR ''_'' \<or> c = CHR '' '')"

definition span_at :: "string \<Rightarrow> (string \<times> nat) option" where
  \<open>span_at s =
     (if take 13 s = ''<span class="''
      then (let run = takeWhile is_class_char (drop 13 s)
            in if run \<noteq> [] \<and> take 2 (dropWhile is_class_char (drop 13 s)) = ''">''
               then Some (run, 13 + length run + 2)
               else None)
      else None)\<close>

definition remap_words :: "(string \<times> string) list \<Rightarrow> string \<Rightarrow> string" where
  "remap_words names run =
     join '' ''
       (map (\<lambda>cl. case map_of names cl of None \<Rightarrow> cl | Some v \<Rightarrow> v)
          (filter (\<lambda>w. w \<noteq> []) (split_on CHR '' '' run)))"

text \<open>\<open>skip\<close> counts the characters of a match that are still to be passed over.\<close>

fun remap_spans :: "(string \<times> string) list \<Rightarrow> nat \<Rightarrow> string \<Rightarrow> string" where
  "remap_spans names skip [] = []"
| "remap_spans names (Suc skip) (c # cs) = remap_spans names skip cs"
| "remap_spans names 0 (c # cs) =
     (case span_at (c # cs) of
        None \<Rightarrow> c # remap_spans names 0 cs
      | Some (run, len) \<Rightarrow> remap_words names run @ remap_spans names (len - 1) cs)"

text \<open>
  \<^verbatim>\<open>CodeBlock.html\<close>. The fallback reads \<^verbatim>\<open>node.content\<close>, an attribute, where the rest of
  the function reads \<^verbatim>\<open>node['lang']\<close> and \<^verbatim>\<open>node['content']\<close>. Both calls of
  \<^verbatim>\<open>html_tag\<close> pass the state fourth.
\<close>

definition CodeBlock_html :: "pygments \<Rightarrow> node \<Rightarrow> renderer \<Rightarrow> state \<Rightarrow> error + string" where
  "CodeBlock_html pyg node output st =
     (case getitem node ''lang'' of
        Inl e \<Rightarrow> Inl e
      | Inr lang \<Rightarrow>
          (case (if truthy lang
                 then (case lang of
                         VStr l \<Rightarrow>
                           (case get_lexer_by_name pyg l of
                              Inl e \<Rightarrow> Inl e
                            | Inr None \<Rightarrow> Inr []
                            | Inr (Some lexer) \<Rightarrow>
                                (case getitem node ''content'' of
                                   Inl e \<Rightarrow> Inl e
                                 | Inr (VStr c) \<Rightarrow> highlight pyg c lexer
                                 | Inr _ \<Rightarrow> Inl Unmodelled))
                       | _ \<Rightarrow> Inl Unmodelled)
                 else Inr []) of
             Inl e \<Rightarrow> Inl e
           | Inr code0 \<Rightarrow>
               (let code =
                      (case css_module_names st of
                         None \<Rightarrow> code0
                       | Some names \<Rightarrow>
                           if code0 \<noteq> [] \<and> names \<noteq> [] then remap_spans names 0 code0 else code0)
                in case (if code \<noteq> [] then Inr code
                         else (case py_getattr node ''content'' of
                                 Inl e \<Rightarrow> Inl e
                               | Inr (VStr c) \<Rightarrow> Inr (sanitize_text c)
                               | Inr _ \<Rightarrow> Inl Unmodelled)) of
                     Inl e \<Rightarrow> Inl e
                   | Inr inner \<Rightarrow>
                       (case (if code \<noteq> []
                              then (case getitem node ''lang'' of
                                      Inl e \<Rightarrow> Inl e
                                    | Inr (VStr l) \<Rightarrow> Inr ('' '' @ l)
                                    | Inr _ \<Rightarrow> Inl TypeError)
                              else Inr []) of
                          Inl e \<Rightarrow> Inl e
                        | Inr suffix \<Rightarrow>
                            Inr (html_tag ''pre''
                                   (html_tag ''code'' inner (Some [(''class'', ''hljs'' @ suffix)])
                                      (state_truthy st) None)
                                   None (state_truthy st) None)))))"

section \<open>Inline code, spoiler and emoticon\<close>

definition backticks :: "nat \<Rightarrow> string" where
  "backticks k = replicate k (CHR 0x60)"

text \<open>
  \<^verbatim>\<open>InlineCode.match\<close>: \<^verbatim>\<open>re.search(r'^(`+)([\s\S]*?[^`])\1(?!`)', source)\<close>.
  After an opening run of \<open>k\<close> backticks, \<open>find_close k r\<close> is the length of the shortest
  text before a closing run in \<open>r\<close>: the text ends with \<open>c\<close>, which is no backtick, \<open>k\<close>
  backticks follow, and no backtick follows them.
\<close>

fun find_close :: "nat \<Rightarrow> string \<Rightarrow> nat option" where
  "find_close k [] = None"
| "find_close k (c # r) =
     (if c \<noteq> CHR 0x60 \<and> take k r = backticks k \<and> take 1 (drop k r) \<noteq> [CHR 0x60]
      then Some 1
      else map_option Suc (find_close k r))"

text \<open>
  The opening run is greedy: all the leading backticks are tried first, then one fewer, down
  to one; the first length for which a closing run is found gives the match.
\<close>

fun try_backticks :: "nat \<Rightarrow> string \<Rightarrow> capture option" where
  "try_backticks 0 source = None"
| "try_backticks (Suc k) source =
     (case find_close (Suc k) (drop (Suc k) source) of
        Some n \<Rightarrow>
          Some [Some (backticks (Suc k) @ take n (drop (Suc k) source) @ backticks (Suc k)),
                Some (backticks (Suc k)),
                Some (take n (drop (Suc k) source))]
      | None \<Rightarrow> try_backticks k source)"

definition InlineCode_match :: "string \<Rightarrow> capture option" where
  "InlineCode_match source =
     try_backticks (length (takeWhile (\<lambda>c. c = CHR 0x60) source)) source"

text \<open>
  \<^verbatim>\<open>Spoiler.match\<close>: \<^verbatim>\<open>re.search(r'^\|\|([\s\S]+?)\|\|', source)\<close>. \<open>find_bars r\<close> is
  the place of the first two bars in \<open>r\<close>.
\<close>

fun find_bars :: "string \<Rightarrow> nat option" where
  "find_bars [] = None"
| "find_bars (c # r) = (if take 2 (c # r) = ''||'' then Some 0 else map_option Suc (find_bars r))"

definition Spoiler_match :: "string \<Rightarrow> capture option" where
  "Spoiler_match source =
     (if take 2 source = ''||'' then
        (case drop 2 source of
           [] \<Rightarrow> None
         | c # r \<Rightarrow>
             (case find_bars r of
                None \<Rightarrow> None
              | Some n \<Rightarrow> Some [Some (''||'' @ c # take n r @ ''||''), Some (c # take n r)]))
      else None)"

text \<open>
  \<^verbatim>\<open>InlineCode.html\<close>:
  \<^verbatim>\<open>html_tag('code', md.sanitize_text(node['content'].strip()), None, state)\<close>. Only a
  \<^verbatim>\<open>str\<close> has \<^verbatim>\<open>strip\<close>.
\<close>

definition InlineCode_html :: "node \<Rightarrow> renderer \<Rightarrow> state \<Rightarrow> error + string" where
  "InlineCode_html node output st =
     (case getitem node ''content'' of
        Inl e \<Rightarrow> Inl e
      | Inr (VStr c) \<Rightarrow>
          Inr (html_tag ''code'' (sanitize_text (strip c)) None (state_truthy st) None)
      | Inr _ \<Rightarrow> Inl AttributeError)"

text \<open>\<^verbatim>\<open>Spoiler.parse\<close>: \<^verbatim>\<open>{'content': parse(capture[1], state)}\<close>.\<close>

definition Spoiler_parse :: "capture \<Rightarrow> nested \<Rightarrow> state \<Rightarrow> error + pyval \<times> state" where
  "Spoiler_parse capture parse st =
     (case group_val capture 1 of
        Inl e \<Rightarrow> Inl e
      | Inr (VStr s) \<Rightarrow>
          (case parse s st of
             Inl e \<Rightarrow> Inl e
           | Inr (nodes, st') \<Rightarrow> Inr (VDict [(''content'', VList nodes)], st'))
      | Inr _ \<Rightarrow> Inl Unmodelled)"

text \<open>
  \<^verbatim>\<open>Spoiler.html\<close>:
  \<^verbatim>\<open>html_tag('span', output(node['content'], state), {'class': 'd-spoiler'}, state)\<close>.
\<close>

definition Spoiler_html :: "node \<Rightarrow> renderer \<Rightarrow> state \<Rightarrow> error + string" where
  "Spoiler_html node output st =
     (case getitem node ''content'' of
        Inl e \<Rightarrow> Inl e
      | Inr c \<Rightarrow>
          (case output c st of
             Inl e \<Rightarrow> Inl e
           | Inr inner \<Rightarrow>
               Inr (html_tag ''span'' inner (Some [(''class'', ''d-spoiler'')]) (state_truthy st) None)))"

definition Spoiler :: "nat \<Rightarrow> rule" where
  "Spoiler order =
     \<lparr>rule_order = order,
      rule_match = (\<lambda>source st previous_source. Inr (Spoiler_match source)),
      rule_parse = Spoiler_parse,
      rule_html = Spoiler_html\<rparr>"

text \<open>
  \<^verbatim>\<open>Emoticon.match\<close>: the pattern is the shrug, which holds the code point U+30C4. No
  string of the model holds a code point above 255, so on the strings of the model the
  pattern never matches.
\<close>

definition Emoticon_match :: "string \<Rightarrow> capture option" where
  "Emoticon_match source = None"

text \<open>\<^verbatim>\<open>Emoticon.parse\<close>: \<^verbatim>\<open>{'type': 'text', 'content': capture[1]}\<close>.\<close>

definition Emoticon_parse :: "capture \<Rightarrow> nested \<Rightarrow> state \<Rightarrow> error + pyval \<times> state" where
  "Emoticon_parse capture parse st =
     (case group_val capture 1 of
        Inl e \<Rightarrow> Inl e
      | Inr v \<Rightarrow> Inr (VDict [(''type'', VStr ''text''), (''content'', v)], st))"

text \<open>\<^verbatim>\<open>Emoticon.html\<close>: \<^verbatim>\<open>output(node['content'], state)\<close>.\<close>

definition Emoticon_html :: "node \<Rightarrow> renderer \<Rightarrow> state \<Rightarrow> error + string" where
  "Emoticon_html node output st =
     (case getitem node ''content'' of
        Inl e \<Rightarrow> Inl e
      | Inr c \<Rightarrow> output c st)"

definition Emoticon :: "nat \<Rightarrow> rule" where
  "Emoticon order =
     \<lparr>rule_order = order,
      rule_match = (\<lambda>source st previous_source. Inr (Emoticon_match source)),
      rule_parse = Emoticon_parse,
      rule_html = Emoticon_html\<rparr>"

section \<open>Links\<close>

text \<open>
  \<^verbatim>\<open>AutoLink.parse\<close> and \<^verbatim>\<open>URL.parse\<close>:
  \<^verbatim>\<open>{'content': [{'type': 'text', 'content': capture[1]}], 'target': capture[1]}\<close>.
\<close>

definition link_parse :: "capture \<Rightarrow> nested \<Rightarrow> state \<Rightarrow> error + pyval \<times> state" where
  "link_parse capture parse st =
     (case group_val capture 1 of
        Inl e \<Rightarrow> Inl e
      | Inr v \<Rightarrow>
          Inr (VDict [(''content'', VList [VDict [(''type'', VStr ''text''), (''content'', v)]]),
                      (''target'', v)], st))"

text \<open>
  \<^verbatim>\<open>AutoLink.html\<close> and \<^verbatim>\<open>URL.html\<close>:
  \<^verbatim>\<open>html_tag('a', output(node['content'], state), {'href': md.sanitize_url(node['target'])}, state)\<close>.
  \<open>sanitize_url\<close> is \<^verbatim>\<open>md.sanitize_url\<close>, taken as given; when it gives \<^verbatim>\<open>None\<close> the
  attribute is falsy, as the empty string is.
\<close>

definition link_html ::
  "(pyval \<Rightarrow> error + string option) \<Rightarrow> node \<Rightarrow> renderer \<Rightarrow> state \<Rightarrow> error + string" where
  "link_html sanitize_url node output st =
     (case getitem node ''content'' of
        Inl e \<Rightarrow> Inl e
      | Inr c \<Rightarrow>
          (case output c st of
             Inl e \<Rightarrow> Inl e
           | Inr inner \<Rightarrow>
               (case getitem node ''target'' of
                  Inl e \<Rightarrow> Inl e
                | Inr target \<Rightarrow>
                    (case sanitize_url target of
                       Inl e \<Rightarrow> Inl e
                     | Inr href \<Rightarrow>
                         Inr (html_tag ''a'' inner
                                (Some [(''href'', (case href of None \<Rightarrow> [] | Some u \<Rightarrow> u))])
                                (state_truthy st) None)))))"

section \<open>The parse and render engines\<close>

text \<open>
  Modelled from the spec: \<^verbatim>\<open>md.parser_for\<close> and \<^verbatim>\<open>md.output_for\<close> of the
  \<^verbatim>\<open>simpy_markdown\<close> package, which is not part of this repository. The spec (section 2,
  Parse Engine): "given a rule table, a source cursor, and a state, repeatedly finds the first
  rule (in precedence order) whose match succeeds, invokes its parse, and recurses into nested
  content"; (section 4.1) rules are tried in ascending order and the first match wins;
  (section 7) it is an error when no rule matches. A node that its rule's \<^verbatim>\<open>parse\<close> left
  without a \<^verbatim>\<open>type\<close> gets the rule's name (section 3: nodes are keyed by rule name).
  The spec does not say which of two rules of the same order is tried first; here they keep
  the order in which the table holds them.

  The Python loop has no bound. Here \<open>fuel\<close> bounds the iterations and the nesting together;
  running out is the error \<open>OutOfFuel\<close>, so a result \<open>Inr\<close> means the code returns.
\<close>

fun find_rule ::
  "(string \<times> rule) list \<Rightarrow> string \<Rightarrow> state \<Rightarrow> error + (string \<times> rule \<times> capture) option" where
  "find_rule [] source st = Inr None"
| "find_rule ((name, r) # rs) source st =
     (case rule_match r source st (prev_capture st) of
        Inl e \<Rightarrow> Inl e
      | Inr None \<Rightarrow> find_rule rs source st
      | Inr (Some capture) \<Rightarrow> Inr (Some (name, r, capture)))"

definition tag_node :: "string \<Rightarrow> pyval \<Rightarrow> pyval list" where
  "tag_node name parsed =
     (case parsed of
        VList nodes \<Rightarrow> nodes
      | VDict d \<Rightarrow>
          (case map_of d ''type'' of
             None \<Rightarrow> [VDict (d @ [(''type'', VStr name)])]
           | Some t \<Rightarrow> [parsed])
      | other \<Rightarrow> [other])"

primrec nested_parse :: "nat \<Rightarrow> (string \<times> rule) list \<Rightarrow> string \<Rightarrow> state \<Rightarrow> error + pyval list \<times> state" where
  "nested_parse 0 rules source st = (if source = [] then Inr ([], st) else Inl OutOfFuel)"
| "nested_parse (Suc fuel) rules source st =
     (if source = [] then Inr ([], st)
      else
        (case find_rule rules source st of
           Inl e \<Rightarrow> Inl e
         | Inr None \<Rightarrow> Inl NoMatchingRule
         | Inr (Some (name, r, capture)) \<Rightarrow>
             (case rule_parse r capture (nested_parse fuel rules) st of
                Inl e \<Rightarrow> Inl e
              | Inr (parsed, st1) \<Rightarrow>
                  (case capture of
                     Some whole # groups \<Rightarrow>
                       (case nested_parse fuel rules (drop (length whole) source)
                               (st1\<lparr>prev_capture := whole\<rparr>) of
                          Inl e \<Rightarrow> Inl e
                        | Inr (nodes, st2) \<Rightarrow> Inr (tag_node name parsed @ nodes, st2))
                   | _ \<Rightarrow> Inl TypeError))))"

definition by_order :: "(string \<times> rule) list \<Rightarrow> (string \<times> rule) list" where
  "by_order rules = sort_key (\<lambda>entry. rule_order (snd entry)) rules"

definition parser_for ::
  "nat \<Rightarrow> (string \<times> rule) list \<Rightarrow> string \<Rightarrow> state \<Rightarrow> error + pyval \<times> state" where
  "parser_for fuel rules source st =
     (case nested_parse fuel (by_order rules) source (st\<lparr>prev_capture := []\<rparr>) of
        Inl e \<Rightarrow> Inl e
      | Inr (nodes, st') \<Rightarrow> Inr (VList nodes, st'))"

text \<open>The renderings of a list of nodes, concatenated; the first error ends it.\<close>

fun concat_results :: "(error + string) list \<Rightarrow> error + string" where
  "concat_results [] = Inr []"
| "concat_results (Inl e # rs) = Inl e"
| "concat_results (Inr s # rs) =
     (case concat_results rs of Inl e \<Rightarrow> Inl e | Inr t \<Rightarrow> Inr (s @ t))"

text \<open>
  Modelled from the spec (section 2, Render Engine): "walks a parsed node tree and invokes each
  node's associated rule render"; the rule is looked up in the table by the node's type.
\<close>

primrec output_for :: "nat \<Rightarrow> (string \<times> rule) list \<Rightarrow> pyval \<Rightarrow> state \<Rightarrow> error + string" where
  "output_for 0 rules ast st = Inl OutOfFuel"
| "output_for (Suc fuel) rules ast st =
     (case ast of
        VList nodes \<Rightarrow> concat_results (map (\<lambda>node. output_for fuel rules node st) nodes)
      | VDict d \<Rightarrow>
          (case map_of d ''type'' of
             Some (VStr t) \<Rightarrow>
               (case map_of rules t of
                  None \<Rightarrow> Inl KeyError
                | Some r \<Rightarrow> rule_html r ast (output_for fuel rules) st)
           | _ \<Rightarrow> Inl KeyError)
      | _ \<Rightarrow> Inl TypeError)"

section \<open>Rule tables and the dispatcher\<close>

text \<open>
  The patterns that the module hands to \<^verbatim>\<open>md.inline_regex\<close> and \<^verbatim>\<open>md.any_scope_regex\<close>:
  \<^verbatim>\<open>r'^```(([a-z0-9-]+?)\n+)?\n*([\S\s]+?)\n*```'\<close> with \<^verbatim>\<open>flags=re.IGNORECASE\<close> in
  \<^verbatim>\<open>CodeBlock.match\<close>, \<^verbatim>\<open>r'^~~([\s\S]+?)~~(?!_)'\<close> in \<^verbatim>\<open>Strike.match\<close> and
  \<^verbatim>\<open>r'^\n'\<close> in \<^verbatim>\<open>Br.match\<close>.
\<close>

datatype md_pattern = CodeBlockPattern | StrikePattern | BrPattern

text \<open>
  What the module takes from the packages \<^verbatim>\<open>simpy_markdown\<close> and \<^verbatim>\<open>pygments\<close>, which are
  not part of this repository; all of it is taken as given. \<open>default_rules name\<close> is the rule
  object \<^verbatim>\<open>md.default_rules[name]\<close>, and \<open>default_classes name\<close> stands for the class
  \<^verbatim>\<open>md.default_classes[name]\<close>, a rule whose methods a subclass inherits (its order plays no
  part). The three \<^verbatim>\<open>match\<close> methods that return \<^verbatim>\<open>md.inline_regex(...)\<close> or
  \<^verbatim>\<open>md.any_scope_regex(...)\<close> do so without looking at their arguments; the result that
  the engine gets from such a method for a source is \<open>inline_regex\<close> and \<open>any_scope_regex\<close>
  here.
\<close>

record environment =
  default_rules :: "string \<Rightarrow> rule"
  default_classes :: "string \<Rightarrow> rule"
  inline_regex :: "md_pattern \<Rightarrow> string \<Rightarrow> state \<Rightarrow> string \<Rightarrow> error + capture option"
  any_scope_regex :: "md_pattern \<Rightarrow> string \<Rightarrow> state \<Rightarrow> string \<Rightarrow> error + capture option"
  sanitize_url :: "pyval \<Rightarrow> error + string option"
  highlighter :: pygments

text \<open>
  The rule classes of the module. A class that extends \<^verbatim>\<open>md.default_classes[name]\<close> is that
  rule with the overridden methods replaced; the instance gets the order given to its
  constructor.
\<close>

definition BlockQuote :: "environment \<Rightarrow> rule" where
  "BlockQuote env =
     (default_classes env ''blockquote'')
       \<lparr>rule_order := rule_order (default_rules env ''block_quote''),
        rule_match := (\<lambda>source st previous_source. Inr (BlockQuote_match source st previous_source)),
        rule_parse := BlockQuote_parse\<rparr>"

definition CodeBlock :: "environment \<Rightarrow> rule" where
  "CodeBlock env =
     (default_classes env ''code_block'')
       \<lparr>rule_order := rule_order (default_rules env ''code_block''),
        rule_match := inline_regex env CodeBlockPattern,
        rule_parse := CodeBlock_parse,
        rule_html := CodeBlock_html (highlighter env)\<rparr>"

definition AutoLink :: "environment \<Rightarrow> rule" where
  "AutoLink env =
     (default_classes env ''autolink'')
       \<lparr>rule_order := rule_order (default_rules env ''autolink''),
        rule_parse := link_parse,
        rule_html := link_html (sanitize_url env)\<rparr>"

definition URL :: "environment \<Rightarrow> rule" where
  "URL env =
     (default_classes env ''url'')
       \<lparr>rule_order := rule_order (default_rules env ''url''),
        rule_parse := link_parse,
        rule_html := link_html (sanitize_url env)\<rparr>"

definition Em :: "environment \<Rightarrow> rule" where
  "Em env =
     (default_classes env ''em'')
       \<lparr>rule_order := rule_order (default_rules env ''em''),
        rule_parse := Em_parse (rule_parse (default_classes env ''em''))\<rparr>"

definition Strike :: "environment \<Rightarrow> rule" where
  "Strike env =
     (default_classes env ''del'')
       \<lparr>rule_order := rule_order (default_rules env ''del''),
        rule_match := inline_regex env StrikePattern\<rparr>"

definition InlineCode :: "environment \<Rightarrow> rule" where
  "InlineCode env =
     (default_classes env ''inline_code'')
       \<lparr>rule_order := rule_order (default_rules env ''inline_code''),
        rule_match := (\<lambda>source st previous_source. Inr (InlineCode_match source)),
        rule_html := InlineCode_html\<rparr>"

definition Text :: "environment \<Rightarrow> rule" where
  "Text env =
     (default_classes env ''text'')
       \<lparr>rule_order := rule_order (default_rules env ''text''),
        rule_match := (\<lambda>source st previous_source. Inr (Text_match source)),
        rule_html := Text_html\<rparr>"

definition Br :: "environment \<Rightarrow> rule" where
  "Br env =
     (default_classes env ''br'')
       \<lparr>rule_order := rule_order (default_rules env ''br''),
        rule_match := any_scope_regex env BrPattern\<rparr>"

text \<open>
  The three tables, dicts in insertion order. \<^verbatim>\<open>rules.update(rules_discord)\<close> adds six new
  keys, and \<^verbatim>\<open>{**rules, 'link': ...}\<close> one more.
\<close>

definition rules_discord :: "environment \<Rightarrow> (string \<times> rule) list" where
  "rules_discord env =
     [(''discord_user'', DiscordUser (rule_order (default_rules env ''strong''))),
      (''discord_channel'', DiscordChannel (rule_order (default_rules env ''strong''))),
      (''discord_role'', DiscordRole (rule_order (default_rules env ''strong''))),
      (''discord_emoji'', DiscordEmoji (rule_order (default_rules env ''strong''))),
      (''discord_everyone'', DiscordEveryone (rule_order (default_rules env ''strong''))),
      (''discord_here'', DiscordHere (rule_order (default_rules env ''strong'')))]"

definition rules :: "environment \<Rightarrow> (string \<times> rule) list" where
  "rules env =
     [(''block_quote'', BlockQuote env),
      (''code_block'', CodeBlock env),
      (''newline'', default_rules env ''newline''),
      (''escape'', default_rules env ''escape''),
      (''autolink'', AutoLink env),
      (''url'', URL env),
      (''em'', Em env),
      (''strong'', default_rules env ''strong''),
      (''u'', default_rules env ''u''),
      (''strike'', Strike env),
      (''inline_code'', InlineCode env),
      (''text'', Text env),
      (''emoticon'', Emoticon (rule_order (default_rules env ''text''))),
      (''br'', Br env),
      (''spoiler'', Spoiler 0)]
     @ rules_discord env"

definition rules_discord_only :: "environment \<Rightarrow> (string \<times> rule) list" where
  "rules_discord_only env = rules_discord env @ [(''text'', Text env)]"

definition rules_embed :: "environment \<Rightarrow> (string \<times> rule) list" where
  "rules_embed env = rules env @ [(''link'', default_rules env ''link'')]"

text \<open>The six parsers and renderers that the module builds from the tables.\<close>

definition parser :: "nat \<Rightarrow> environment \<Rightarrow> string \<Rightarrow> state \<Rightarrow> error + pyval \<times> state" where
  "parser fuel env = parser_for fuel (rules env)"

definition html_output :: "nat \<Rightarrow> environment \<Rightarrow> pyval \<Rightarrow> state \<Rightarrow> error + string" where
  "html_output fuel env = output_for fuel (rules env)"

definition parser_discord :: "nat \<Rightarrow> environment \<Rightarrow> string \<Rightarrow> state \<Rightarrow> error + pyval \<times> state" where
  "parser_discord fuel env = parser_for fuel (rules_discord_only env)"

definition html_output_discord :: "nat \<Rightarrow> environment \<Rightarrow> pyval \<Rightarrow> state \<Rightarrow> error + string" where
  "html_output_discord fuel env = output_for fuel (rules_discord_only env)"

definition parser_embed :: "nat \<Rightarrow> environment \<Rightarrow> string \<Rightarrow> state \<Rightarrow> error + pyval \<times> state" where
  "parser_embed fuel env = parser_for fuel (rules_embed env)"

definition html_output_embed :: "nat \<Rightarrow> environment \<Rightarrow> pyval \<Rightarrow> state \<Rightarrow> error + string" where
  "html_output_embed fuel env = output_for fuel (rules_embed env)"

text \<open>
  The \<^verbatim>\<open>options\<close> dict; \<open>None\<close> is a key that the caller did not give.
\<close>

record options =
  embed :: "bool option"
  opt_escape_html :: "bool option"
  discord_only :: "bool option"
  opt_discord_callback :: "(string \<times> (node \<Rightarrow> error + string)) list option"
  opt_css_module_names :: "(string \<times> string) list option"

definition no_options :: options where
  "no_options =
     \<lparr>embed = None, opt_escape_html = None, discord_only = None,
      opt_discord_callback = None, opt_css_module_names = None\<rparr>"

text \<open>Truth value of an optional callable: \<^verbatim>\<open>None\<close> is false, a function is true.\<close>

fun given :: "'a option \<Rightarrow> bool" where
  "given None = False"
| "given (Some f) = True"

text \<open>
  The state that \<^verbatim>\<open>to_html\<close> builds from the options merged over their defaults.
  \<^verbatim>\<open>options.get('css_module_names') or None\<close>: an empty table counts as none.
\<close>

definition initial_state :: "options option \<Rightarrow> state" where
  "initial_state options =
     (let opts = (case options of None \<Rightarrow> no_options | Some given_options \<Rightarrow> given_options)
      in \<lparr>inline = True,
          in_quote = False,
          in_emphasis = False,
          escape_html = (case opt_escape_html opts of None \<Rightarrow> True | Some b \<Rightarrow> b),
          css_module_names =
            (case opt_css_module_names opts of
               None \<Rightarrow> None
             | Some names \<Rightarrow> if names = [] then None else Some names),
          discord_callback =
            discord_callback_defaults
              ++ map_of (case opt_discord_callback opts of None \<Rightarrow> [] | Some callbacks \<Rightarrow> callbacks),
          prev_capture = []\<rparr>)"

text \<open>
  \<^verbatim>\<open>to_html(source, options=None, custom_parser=None, custom_html_output=None)\<close>.
  Calling a renderer that is \<^verbatim>\<open>None\<close> would be a TypeError. The parser writes to the state
  dict and the renderer gets the same dict, so the renderer sees the state the parser left.
\<close>

definition to_html ::
  "nat \<Rightarrow> environment \<Rightarrow> string \<Rightarrow> options option
     \<Rightarrow> (string \<Rightarrow> state \<Rightarrow> error + pyval \<times> state) option
     \<Rightarrow> (pyval \<Rightarrow> state \<Rightarrow> error + string) option \<Rightarrow> error + string" where
  "to_html fuel env source options custom_parser custom_html_output =
     (if (given custom_parser \<or> given custom_html_output)
         \<and> (custom_parser = None \<or> custom_html_output = None)
      then Inl ConfigurationError
      else
        (let opts = (case options of None \<Rightarrow> no_options | Some given_options \<Rightarrow> given_options);
             pair =
               (case custom_parser of
                  Some p \<Rightarrow>
                    (p, (case custom_html_output of
                           None \<Rightarrow> (\<lambda>ast st. Inl TypeError)
                         | Some h \<Rightarrow> h))
                | None \<Rightarrow>
                    if (case discord_only opts of None \<Rightarrow> False | Some b \<Rightarrow> b)
                    then (parser_discord fuel env, html_output_discord fuel env)
                    else if (case embed opts of None \<Rightarrow> False | Some b \<Rightarrow> b)
                    then (parser_embed fuel env, html_output_embed fuel env)
                    else (parser fuel env, html_output fuel env))
         in case fst pair source (initial_state options) of
              Inl e \<Rightarrow> Inl e
            | Inr (ast, st) \<Rightarrow> snd pair ast st))"

text \<open>
  Conditions on the base package, under which a document can be followed through the full
  table. The table takes four rules from the base package as they are (\<^verbatim>\<open>newline\<close>,
  \<^verbatim>\<open>escape\<close>, \<^verbatim>\<open>strong\<close>, \<^verbatim>\<open>u\<close>), three rules inherit their \<^verbatim>\<open>match\<close> from a base
  class (\<^verbatim>\<open>autolink\<close>, \<^verbatim>\<open>url\<close>, \<^verbatim>\<open>em\<close>), and three get theirs from
  \<^verbatim>\<open>md.inline_regex\<close> or \<^verbatim>\<open>md.any_scope_regex\<close> (\<^verbatim>\<open>code_block\<close>, \<^verbatim>\<open>strike\<close>,
  \<^verbatim>\<open>br\<close>). \<open>base_silent env source\<close> says that none of these ten matches \<open>source\<close>, in
  whatever state.
\<close>

definition base_silent :: "environment \<Rightarrow> string \<Rightarrow> bool" where
  "base_silent env source =
     (\<forall>st previous_source.
        inline_regex env CodeBlockPattern source st previous_source = Inr None
        \<and> rule_match (default_rules env ''newline'') source st previous_source = Inr None
        \<and> rule_match (default_rules env ''escape'') source st previous_source = Inr None
        \<and> rule_match (default_classes env ''autolink'') source st previous_source = Inr None
        \<and> rule_match (default_classes env ''url'') source st previous_source = Inr None
        \<and> rule_match (default_classes env ''em'') source st previous_source = Inr None
        \<and> rule_match (default_rules env ''strong'') source st previous_source = Inr None
        \<and> rule_match (default_rules env ''u'') source st previous_source = Inr None
        \<and> inline_regex env StrikePattern source st previous_source = Inr None
        \<and> any_scope_regex env BrPattern source st previous_source = Inr None)"

text \<open>
  Modelled from the spec (section 3): a text node is \<^verbatim>\<open>text{content: string}\<close>. The Text
  rule of the module inherits its \<^verbatim>\<open>parse\<close> from \<^verbatim>\<open>md.default_classes['text']\<close>;
  \<open>base_text_parse env\<close> says that this \<^verbatim>\<open>parse\<close> returns the captured text as the content
  and leaves the state alone.
\<close>

definition base_text_parse :: "environment \<Rightarrow> bool" where
  "base_text_parse env =
     (\<forall>text parse st.
        rule_parse (default_classes env ''text'') [Some text] parse st
          = Inr (VDict [(''content'', VStr text)], st))"

text \<open>
  A concrete environment, at which statements are evaluated below: a base package whose own
  rules never match, with order 1 for every rule but \<^verbatim>\<open>text\<close>, which has order 2. The
  \<^verbatim>\<open>parse\<close> of its rules and classes returns the captured text as the content; the \<^verbatim>\<open>html\<close>
  of the class \<open>name\<close> renders the content of the node inside a tag \<open>name\<close>.
\<close>

definition sample_rule :: "nat \<Rightarrow> rule" where
  "sample_rule order =
     \<lparr>rule_order = order,
      rule_match = (\<lambda>source st previous_source. Inr None),
      rule_parse =
        (\<lambda>capture parse st.
           Inr (VDict [(''content'',
                        (case capture of Some whole # groups \<Rightarrow> VStr whole | _ \<Rightarrow> VNone))], st)),
      rule_html = (\<lambda>node output st. Inr [])\<rparr>"

definition sample_class :: "string \<Rightarrow> rule" where
  "sample_class name =
     (sample_rule 0)
       \<lparr>rule_html :=
          (\<lambda>node output st.
             case getitem node ''content'' of
               Inl e \<Rightarrow> Inl e
             | Inr c \<Rightarrow>
                 (case output c st of
                    Inl e \<Rightarrow> Inl e
                  | Inr inner \<Rightarrow> Inr (html_tag name inner None (state_truthy st) None)))\<rparr>"

definition sample_environment :: environment where
  "sample_environment =
     \<lparr>default_rules = (\<lambda>name. sample_rule (if name = ''text'' then 2 else 1)),
      default_classes = sample_class,
      inline_regex = (\<lambda>pattern source st previous_source. Inr None),
      any_scope_regex = (\<lambda>pattern source st previous_source. Inr None),
      sanitize_url = (\<lambda>url. Inr None),
      highlighter = \<lparr>get_lexer_by_name = (\<lambda>name. Inr None), highlight = (\<lambda>code lexer. Inr [])\<rparr>\<rparr>"

section \<open>Results\<close>

subsection \<open>The engine and the mentions-only table\<close>

lemma nested_parse_empty: "nested_parse fuel table [] st = Inr ([], st)"
  by (cases fuel) simp_all

lemma by_order_discord_only:
  "rule_order (default_rules env ''strong'') < rule_order (default_rules env ''text'')
     \<Longrightarrow> by_order (rules_discord_only env) = rules_discord_only env"
  by (simp add: by_order_def rules_discord_only_def rules_discord_def DiscordUser_def
      DiscordChannel_def DiscordRole_def DiscordEmoji_def DiscordEveryone_def DiscordHere_def Text_def)

lemma set_by_order: "set (by_order table) = set table"
  by (simp add: by_order_def)

lemma DiscordUser_match_123: "DiscordUser_match ''<@123>'' = Some [Some ''<@123>'', Some ''123'']"
  by (simp add: DiscordUser_match_def id_close_def is_digit_def)

lemma find_rule_user_123:
  "find_rule (rules_discord_only env) ''<@123>'' st =
     Inr (Some (''discord_user'', DiscordUser (rule_order (default_rules env ''strong'')), [Some ''<@123>'', Some ''123'']))"
  by (simp add: rules_discord_only_def rules_discord_def DiscordUser_def DiscordUser_match_123)

lemma parser_discord_user_123:
  assumes "rule_order (default_rules env ''strong'') < rule_order (default_rules env ''text'')"
  shows "parser_discord (Suc n) env ''<@123>'' st =
     Inr (VList [VDict [(''id'', VStr ''123''), (''type'', VStr ''discord_user'')]],
          st\<lparr>prev_capture := ''<@123>''\<rparr>)"
  using assms
  by (simp add: parser_discord_def parser_for_def by_order_discord_only find_rule_user_123
      nested_parse_empty DiscordUser_def id_parse_def group_val_def tag_node_def)

lemma html_output_discord_user:
  assumes "discord_callback st ''user'' = Some callback"
    and "callback (VDict [(''id'', VStr ident), (''type'', VStr ''discord_user'')]) = Inr content"
  shows "html_output_discord (Suc (Suc n)) env
           (VList [VDict [(''id'', VStr ident), (''type'', VStr ''discord_user'')]]) st =
     Inr (''<span class='' @ [CHR 0x22] @ ''d-mention d-user'' @ [CHR 0x22] @ ''>'' @ content @ ''</span>'')"
  using assms
  by (simp add: html_output_discord_def rules_discord_only_def rules_discord_def
      DiscordUser_def mention_html_def html_tag_def state_truthy_def sanitize_text_def)

lemma id_callback_123:
  "id_callback ''@'' (VDict [(''id'', VStr ''123''), (''type'', VStr ''discord_user'')]) = Inr ''@123''"
  by (simp add: id_callback_def sanitize_text_def)

text \<open>A rule of the table that matches keeps \<open>find_rule\<close> from coming back empty.\<close>

lemma find_rule_matching_entry:
  assumes "(name, r) \<in> set table"
    and "rule_match r source st (prev_capture st) = Inr (Some capture)"
  shows "find_rule table source st \<noteq> Inr None"
  using assms
proof (induction table)
  case Nil
  then show ?case by simp
next
  case (Cons entry table)
  obtain n r' where e: "entry = (n, r')" by (cases entry)
  show ?case
  proof (cases "rule_match r' source st (prev_capture st)")
    case (Inl err)
    with e show ?thesis by simp
  next
    case (Inr m)
    show ?thesis
    proof (cases m)
      case (Some c)
      with Inr e show ?thesis by simp
    next
      case None
      with Inr e Cons.prems have "(name, r) \<in> set table" by auto
      with Cons.IH Cons.prems(2) None Inr e show ?thesis by simp
    qed
  qed
qed

lemma text_in_discord_only: "(''text'', Text env) \<in> set (rules_discord_only env)"
  by (simp add: rules_discord_only_def)

lemma text_in_rules: "(''text'', Text env) \<in> set (rules env)"
  by (simp add: rules_def)

lemma text_in_rules_embed: "(''text'', Text env) \<in> set (rules_embed env)"
  by (simp add: rules_embed_def text_in_rules)

subsection \<open>The mention patterns\<close>

lemma digits_then_close:
  assumes "list_all is_digit ds"
  shows "takeWhile is_digit (ds @ CHR ''>'' # rest) = ds"
    and "dropWhile is_digit (ds @ CHR ''>'' # rest) = CHR ''>'' # rest"
proof -
  have nd: "\<not> is_digit CHR ''>''" by (simp add: is_digit_def)
  from assms have all: "\<forall>x\<in>set ds. is_digit x" by (simp add: list_all_iff)
  show "takeWhile is_digit (ds @ CHR ''>'' # rest) = ds"
    using all nd by (simp add: takeWhile_append2)
  show "dropWhile is_digit (ds @ CHR ''>'' # rest) = CHR ''>'' # rest"
    using all nd by (simp add: dropWhile_append3)
qed

lemma id_close_iff:
  "id_close pre r = Some cap \<longleftrightarrow>
     (\<exists>ds rest. list_all is_digit ds \<and> r = ds @ CHR ''>'' # rest
        \<and> cap = [Some (pre @ ds @ ''>''), Some ds])"
proof
  assume a: "id_close pre r = Some cap"
  then obtain rest where d: "dropWhile is_digit r = CHR ''>'' # rest"
    by (auto simp: id_close_def Let_def split: list.splits if_splits)
  with a have c: "cap = [Some (pre @ takeWhile is_digit r @ ''>''), Some (takeWhile is_digit r)]"
    by (simp add: id_close_def Let_def)
  have "r = takeWhile is_digit r @ dropWhile is_digit r" by simp
  with d have "r = takeWhile is_digit r @ CHR ''>'' # rest" by simp
  moreover have "list_all is_digit (takeWhile is_digit r)"
    by (simp add: list_all_iff) (meson set_takeWhileD)
  ultimately show "\<exists>ds rest. list_all is_digit ds \<and> r = ds @ CHR ''>'' # rest
      \<and> cap = [Some (pre @ ds @ ''>''), Some ds]"
    using c by blast
next
  assume "\<exists>ds rest. list_all is_digit ds \<and> r = ds @ CHR ''>'' # rest
      \<and> cap = [Some (pre @ ds @ ''>''), Some ds]"
  then obtain ds rest where a: "list_all is_digit ds" and r: "r = ds @ CHR ''>'' # rest"
    and c: "cap = [Some (pre @ ds @ ''>''), Some ds]" by blast
  show "id_close pre r = Some cap"
    using digits_then_close [OF a, of rest] by (simp add: id_close_def r c Let_def)
qed

lemma not_digit_bang: "\<not> is_digit CHR ''!''" and not_digit_hash: "\<not> is_digit CHR ''#''"
  by (simp_all add: is_digit_def)

lemma digits_not_bang:
  assumes "list_all is_digit ds"
  shows "ds @ CHR ''>'' # rest \<noteq> CHR ''!'' # r" and "ds @ CHR ''>'' # rest \<noteq> CHR ''#'' # r"
  using assms not_digit_bang not_digit_hash by (cases ds; auto)+

lemma DiscordRole_match_prefix:
  "DiscordRole_match s = Some cap \<longleftrightarrow>
     (\<exists>r. s = CHR ''<'' # CHR ''@'' # CHR ''&'' # r \<and> id_close ''<@&'' r = Some cap)"
proof (cases s)
  case Nil
  then show ?thesis by (simp add: DiscordRole_match_def)
next
  case s: (Cons c1 s1)
  show ?thesis
  proof (cases s1)
    case Nil
    with s show ?thesis by (simp add: DiscordRole_match_def)
  next
    case s1: (Cons c2 s2)
    show ?thesis
    proof (cases s2)
      case Nil
      with s s1 show ?thesis by (simp add: DiscordRole_match_def)
    next
      case (Cons c3 r)
      with s s1 show ?thesis by (auto simp add: DiscordRole_match_def)
    qed
  qed
qed

lemma DiscordUser_match_prefix:
  "DiscordUser_match s = Some cap \<longleftrightarrow>
     (\<exists>c r. s = CHR ''<'' # CHR ''@'' # c # r \<and>
        (if c = CHR ''!'' then id_close ''<@!'' r else id_close ''<@'' (c # r)) = Some cap)"
proof (cases s)
  case Nil
  then show ?thesis by (simp add: DiscordUser_match_def)
next
  case s: (Cons c1 s1)
  show ?thesis
  proof (cases s1)
    case Nil
    with s show ?thesis by (simp add: DiscordUser_match_def)
  next
    case s1: (Cons c2 s2)
    show ?thesis
    proof (cases s2)
      case Nil
      with s s1 show ?thesis by (simp add: DiscordUser_match_def)
    next
      case (Cons c3 r)
      with s s1 show ?thesis by (auto simp add: DiscordUser_match_def)
    qed
  qed
qed

lemma DiscordChannel_match_prefix:
  "DiscordChannel_match s = Some cap \<longleftrightarrow>
     (\<exists>c r. s = CHR ''<'' # c # r \<and>
        (if c = CHR ''#'' then id_close ''<#'' r else id_close ''<'' (c # r)) = Some cap)"
proof (cases s)
  case Nil
  then show ?thesis by (simp add: DiscordChannel_match_def)
next
  case s: (Cons c1 s1)
  show ?thesis
  proof (cases s1)
    case Nil
    with s show ?thesis by (simp add: DiscordChannel_match_def)
  next
    case (Cons c2 r)
    with s show ?thesis by (auto simp add: DiscordChannel_match_def)
  qed
qed

lemma DiscordUser_match_iff:
  "(DiscordUser_match s = Some cap) =
     (\<exists>ds rest. list_all is_digit ds \<and>
        ((s = ''<@'' @ ds @ ''>'' @ rest \<and> cap = [Some (''<@'' @ ds @ ''>''), Some ds])
         \<or> (s = ''<@!'' @ ds @ ''>'' @ rest \<and> cap = [Some (''<@!'' @ ds @ ''>''), Some ds])))"
  (is "?L = ?R")
proof
  assume ?L
  then obtain c r where s: "s = CHR ''<'' # CHR ''@'' # c # r"
    and m: "(if c = CHR ''!'' then id_close ''<@!'' r else id_close ''<@'' (c # r)) = Some cap"
    unfolding DiscordUser_match_prefix by blast
  show ?R
  proof (cases "c = CHR ''!''")
    case True
    with m obtain ds rest where "list_all is_digit ds" "r = ds @ CHR ''>'' # rest"
      "cap = [Some (''<@!'' @ ds @ ''>''), Some ds]"
      by (auto simp: id_close_iff)
    with s True show ?thesis by auto
  next
    case False
    with m obtain ds rest where "list_all is_digit ds" "c # r = ds @ CHR ''>'' # rest"
      "cap = [Some (''<@'' @ ds @ ''>''), Some ds]"
      by (auto simp: id_close_iff)
    with s show ?thesis by auto
  qed
next
  assume ?R
  then obtain ds rest where d: "list_all is_digit ds"
    and alt: "(s = ''<@'' @ ds @ ''>'' @ rest \<and> cap = [Some (''<@'' @ ds @ ''>''), Some ds])
       \<or> (s = ''<@!'' @ ds @ ''>'' @ rest \<and> cap = [Some (''<@!'' @ ds @ ''>''), Some ds])"
    by blast
  from alt show ?L
  proof
    assume a: "s = ''<@'' @ ds @ ''>'' @ rest \<and> cap = [Some (''<@'' @ ds @ ''>''), Some ds]"
    obtain c r where cr: "ds @ CHR ''>'' # rest = c # r" by (cases ds) auto
    then have nb: "c \<noteq> CHR ''!''" using digits_not_bang(1) [OF d] by metis
    have "id_close ''<@'' (ds @ CHR ''>'' # rest) = Some cap"
      unfolding id_close_iff using d a by auto
    then have "id_close ''<@'' (c # r) = Some cap" by (simp only: cr)
    with a cr nb show ?L unfolding DiscordUser_match_prefix by auto
  next
    assume a: "s = ''<@!'' @ ds @ ''>'' @ rest \<and> cap = [Some (''<@!'' @ ds @ ''>''), Some ds]"
    have "id_close ''<@!'' (ds @ CHR ''>'' # rest) = Some cap"
      unfolding id_close_iff using d a by auto
    with a show ?L unfolding DiscordUser_match_prefix by auto
  qed
qed

lemma DiscordChannel_match_iff:
  "(DiscordChannel_match s = Some cap) =
     (\<exists>ds rest. list_all is_digit ds \<and>
        ((s = ''<'' @ ds @ ''>'' @ rest \<and> cap = [Some (''<'' @ ds @ ''>''), Some ds])
         \<or> (s = ''<#'' @ ds @ ''>'' @ rest \<and> cap = [Some (''<#'' @ ds @ ''>''), Some ds])))"
  (is "?L = ?R")
proof
  assume ?L
  then obtain c r where s: "s = CHR ''<'' # c # r"
    and m: "(if c = CHR ''#'' then id_close ''<#'' r else id_close ''<'' (c # r)) = Some cap"
    unfolding DiscordChannel_match_prefix by blast
  show ?R
  proof (cases "c = CHR ''#''")
    case True
    with m obtain ds rest where "list_all is_digit ds" "r = ds @ CHR ''>'' # rest"
      "cap = [Some (''<#'' @ ds @ ''>''), Some ds]"
      by (auto simp: id_close_iff)
    with s True show ?thesis by auto
  next
    case False
    with m obtain ds rest where "list_all is_digit ds" "c # r = ds @ CHR ''>'' # rest"
      "cap = [Some (''<'' @ ds @ ''>''), Some ds]"
      by (auto simp: id_close_iff)
    with s show ?thesis by auto
  qed
next
  assume ?R
  then obtain ds rest where d: "list_all is_digit ds"
    and alt: "(s = ''<'' @ ds @ ''>'' @ rest \<and> cap = [Some (''<'' @ ds @ ''>''), Some ds])
       \<or> (s = ''<#'' @ ds @ ''>'' @ rest \<and> cap = [Some (''<#'' @ ds @ ''>''), Some ds])"
    by blast
  from alt show ?L
  proof
    assume a: "s = ''<'' @ ds @ ''>'' @ rest \<and> cap = [Some (''<'' @ ds @ ''>''), Some ds]"
    obtain c r where cr: "ds @ CHR ''>'' # rest = c # r" by (cases ds) auto
    then have nb: "c \<noteq> CHR ''#''" using digits_not_bang(2) [OF d] by metis
    have "id_close ''<'' (ds @ CHR ''>'' # rest) = Some cap"
      unfolding id_close_iff using d a by auto
    then have "id_close ''<'' (c # r) = Some cap" by (simp only: cr)
    with a cr nb show ?L unfolding DiscordChannel_match_prefix by auto
  next
    assume a: "s = ''<#'' @ ds @ ''>'' @ rest \<and> cap = [Some (''<#'' @ ds @ ''>''), Some ds]"
    have "id_close ''<#'' (ds @ CHR ''>'' # rest) = Some cap"
      unfolding id_close_iff using d a by auto
    with a show ?L unfolding DiscordChannel_match_prefix by auto
  qed
qed

lemma DiscordRole_match_iff:
  "(DiscordRole_match s = Some cap) =
     (\<exists>ds rest. list_all is_digit ds \<and> s = ''<@&'' @ ds @ ''>'' @ rest
        \<and> cap = [Some (''<@&'' @ ds @ ''>''), Some ds])"
  unfolding DiscordRole_match_prefix id_close_iff by auto

lemma emoji_match_animated:
  "DiscordEmoji_match ''<a:wave:999>''
     = Some [Some ''<a:wave:999>'', Some ''a'', Some ''wave'', Some ''999'']"
  by (simp add: DiscordEmoji_match_def emoji_tail_def is_word_def is_digit_def)

lemma emoji_match_still:
  "DiscordEmoji_match ''<:wave:999>''
     = Some [Some ''<:wave:999>'', Some [], Some ''wave'', Some ''999'']"
  by (simp add: DiscordEmoji_match_def emoji_tail_def is_word_def is_digit_def)

subsection \<open>Emoji through the mentions-only table\<close>

lemma find_rule_emoji_animated:
  "find_rule (rules_discord_only env) ''<a:wave:999>'' st =
     Inr (Some (''discord_emoji'', DiscordEmoji (rule_order (default_rules env ''strong'')),
            [Some ''<a:wave:999>'', Some ''a'', Some ''wave'', Some ''999'']))"
  by (simp add: rules_discord_only_def rules_discord_def DiscordUser_def DiscordChannel_def
      DiscordRole_def DiscordEmoji_def emoji_match_animated
      DiscordUser_match_def DiscordChannel_match_def DiscordRole_match_def id_close_def is_digit_def)

lemma find_rule_emoji_still:
  "find_rule (rules_discord_only env) ''<:wave:999>'' st =
     Inr (Some (''discord_emoji'', DiscordEmoji (rule_order (default_rules env ''strong'')),
            [Some ''<:wave:999>'', Some [], Some ''wave'', Some ''999'']))"
  by (simp add: rules_discord_only_def rules_discord_def DiscordUser_def DiscordChannel_def
      DiscordRole_def DiscordEmoji_def emoji_match_still
      DiscordUser_match_def DiscordChannel_match_def DiscordRole_match_def id_close_def is_digit_def)

lemma parser_discord_emoji_animated:
  assumes "rule_order (default_rules env ''strong'') < rule_order (default_rules env ''text'')"
  shows "parser_discord (Suc n) env ''<a:wave:999>'' st =
     Inr (VList [VDict [(''animated'', VBool True), (''name'', VStr ''wave''), (''id'', VStr ''999''),
                        (''type'', VStr ''discord_emoji'')]],
          st\<lparr>prev_capture := ''<a:wave:999>''\<rparr>)"
  using assms
  by (simp add: parser_discord_def parser_for_def by_order_discord_only find_rule_emoji_animated
      nested_parse_empty DiscordEmoji_def DiscordEmoji_parse_def group_val_def tag_node_def)

lemma parser_discord_emoji_still:
  assumes "rule_order (default_rules env ''strong'') < rule_order (default_rules env ''text'')"
  shows "parser_discord (Suc n) env ''<:wave:999>'' st =
     Inr (VList [VDict [(''animated'', VBool False), (''name'', VStr ''wave''), (''id'', VStr ''999''),
                        (''type'', VStr ''discord_emoji'')]],
          st\<lparr>prev_capture := ''<:wave:999>''\<rparr>)"
  using assms
  by (simp add: parser_discord_def parser_for_def by_order_discord_only find_rule_emoji_still
      nested_parse_empty DiscordEmoji_def DiscordEmoji_parse_def group_val_def tag_node_def)

lemma html_output_discord_emoji:
  assumes "\<And>output. DiscordEmoji_html (VDict [(''animated'', a), (''name'', nm), (''id'', i),
                        (''type'', VStr ''discord_emoji'')]) output st = Inr s"
  shows "html_output_discord (Suc (Suc n)) env
           (VList [VDict [(''animated'', a), (''name'', nm), (''id'', i),
                        (''type'', VStr ''discord_emoji'')]]) st = Inr s"
  using assms
  by (simp add: html_output_discord_def rules_discord_only_def rules_discord_def DiscordEmoji_def)

lemma emoji_html_animated:
  \<open>DiscordEmoji_html
        (VDict [(''animated'', VBool True), (''name'', VStr ''wave''), (''id'', VStr ''999''),
                (''type'', VStr ''discord_emoji'')])
        output (st\<lparr>css_module_names := None\<rparr>)
      = Inr ''<img class="d-emoji d-emoji-animated" src="https://cdn.discordapp.com/emojis/999.gif" alt=":wave:">''\<close>
  by (simp add: DiscordEmoji_html_def html_tag_def sanitize_text_def)

lemma emoji_html_still:
  \<open>DiscordEmoji_html
        (VDict [(''animated'', VBool False), (''name'', VStr ''wave''), (''id'', VStr ''999''),
                (''type'', VStr ''discord_emoji'')])
        output (st\<lparr>css_module_names := None\<rparr>)
      = Inr ''<img class="d-emoji" src="https://cdn.discordapp.com/emojis/999.png" alt=":wave:">''\<close>
  by (simp add: DiscordEmoji_html_def html_tag_def sanitize_text_def)

lemma initial_state_no_css:
  "(initial_state (Some (opts\<lparr>discord_only := d, opt_css_module_names := None\<rparr>)))\<lparr>prev_capture := p\<rparr>
     = ((initial_state (Some (opts\<lparr>discord_only := d, opt_css_module_names := None\<rparr>)))\<lparr>prev_capture := p\<rparr>)\<lparr>css_module_names := None\<rparr>"
  by (simp add: initial_state_def)

subsection \<open>Lines of a block quote\<close>

lemma split_on_no_sep: "sep \<notin> set l \<Longrightarrow> split_on sep l = [l]"
  by (induction l) auto

lemma split_on_append_sep:
  "sep \<notin> set l \<Longrightarrow> split_on sep (l @ sep # rest) = l # split_on sep rest"
  by (induction l) auto

lemma split_on_join:
  "ls \<noteq> [] \<Longrightarrow> list_all (\<lambda>l. sep \<notin> set l) ls \<Longrightarrow> split_on sep (join [sep] ls) = ls"
proof (induction "[sep]" ls rule: join.induct)
  case 1
  then show ?case by simp
next
  case (2 x)
  then show ?case by (simp add: split_on_no_sep)
next
  case (3 x y ys)
  then show ?case by (simp add: split_on_append_sep)
qed

lemma take_2_eq:
  assumes "take 2 xs = [a, b]"
  shows "\<exists>t. xs = a # b # t"
proof (cases xs)
  case Nil
  with assms show ?thesis by simp
next
  case (Cons x xs')
  with assms show ?thesis by (cases xs') (simp_all add: numeral_2_eq_2)
qed

lemma quote_line_head:
  assumes "is_quote_line l"
  shows "\<exists>t. dropWhile is_blank l = CHR ''>'' # CHR '' '' # t"
  using assms take_2_eq [of "dropWhile is_blank l" "CHR ''>''" "CHR '' ''"]
  by (simp add: is_quote_line_def)

lemma strip_quote_line:
  assumes "is_quote_line l"
  shows "strip_line_marker l = drop 2 (dropWhile is_blank l)"
proof -
  from quote_line_head [OF assms] obtain t where "dropWhile is_blank l = CHR ''>'' # CHR '' '' # t" ..
  then show ?thesis by (simp add: strip_line_marker_def)
qed

lemma dropWhile_blank_append:
  assumes "dropWhile is_blank l = c # t"
  shows "dropWhile is_blank (l @ rest) = c # t @ rest"
proof -
  from assms have "dropWhile is_blank l \<noteq> []" by simp
  then obtain x where "x \<in> set l" "\<not> is_blank x" by (auto simp: dropWhile_eq_Nil_conv)
  then have "dropWhile is_blank (l @ rest) = dropWhile is_blank l @ rest"
    by (rule dropWhile_append1)
  with assms show ?thesis by simp
qed

lemma quote_lines_start:
  assumes "ls \<noteq> []" and "list_all is_quote_line ls"
  shows "\<exists>t. dropWhile is_blank (join [NL] ls) = CHR ''>'' # CHR '' '' # t"
proof -
  from assms obtain l ls' where ls: "ls = l # ls'" and q: "is_quote_line l"
    by (cases ls) auto
  from quote_line_head [OF q] obtain t where d: "dropWhile is_blank l = CHR ''>'' # CHR '' '' # t" ..
  show ?thesis
  proof (cases ls')
    case Nil
    with ls d show ?thesis by simp
  next
    case (Cons a list)
    then have "join [NL] ls = l @ ([NL] @ join [NL] ls')" using ls by simp
    with dropWhile_blank_append [OF d] show ?thesis by simp
  qed
qed

lemma takeWhile_all: "list_all P xs \<Longrightarrow> takeWhile P xs = xs"
  by (induction xs) auto

lemma quote_lines_regex:
  assumes "ls \<noteq> []" and "list_all is_quote_line ls" and "list_all (\<lambda>l. NL \<notin> set l) ls"
  shows "quote_regex (join [NL] ls)
           = Some [Some (join [NL] ls), None, None, Some (join [NL] ls),
                   (if 2 \<le> length ls then Some (NL # last ls) else None)]"
proof -
  from quote_lines_start [OF assms(1,2)] obtain t
    where d: "dropWhile is_blank (join [NL] ls) = CHR ''>'' # CHR '' '' # t" ..
  then have nb: "take 4 (dropWhile is_blank (join [NL] ls)) \<noteq> ''>>> ''"
    by (simp add: numeral_eq_Suc)
  have sp: "split_on NL (join [NL] ls) = ls" by (rule split_on_join [OF assms(1,3)])
  show ?thesis
    using nb assms(1) by (simp add: quote_regex_def sp takeWhile_all [OF assms(2)] Let_def)
qed

lemma quote_lines_content:
  assumes "ls \<noteq> []" and "list_all is_quote_line ls" and "list_all (\<lambda>l. NL \<notin> set l) ls"
  shows "quote_content (join [NL] ls) = join [NL] (map (\<lambda>l. drop 2 (dropWhile is_blank l)) ls)"
proof -
  from quote_lines_start [OF assms(1,2)] obtain t
    where d: "dropWhile is_blank (join [NL] ls) = CHR ''>'' # CHR '' '' # t" ..
  then have nb: "\<not> is_block (join [NL] ls)"
    by (simp add: is_block_def numeral_eq_Suc)
  have sp: "split_on NL (join [NL] ls) = ls" by (rule split_on_join [OF assms(1,3)])
  have mp: "map strip_line_marker ls = map (\<lambda>l. drop 2 (dropWhile is_blank l)) ls"
    using assms(2) by (induction ls) (simp_all add: strip_quote_line)
  have "quote_content (join [NL] ls) = join [NL] (map strip_line_marker ls)"
    using nb by (simp add: quote_content_def strip_line_markers_def sp)
  then show ?thesis by (simp only: mp)
qed

lemma block_form_regex:
  assumes "take 4 (dropWhile is_blank source) = ''>>> ''"
  shows "quote_regex source
           = Some [Some source, Some source, Some (drop 4 (dropWhile is_blank source)), None, None]"
  using assms by (simp add: quote_regex_def)

lemma block_form_content:
  assumes "take 4 (dropWhile is_blank source) = ''>>> ''"
  shows "quote_content source = drop 4 (dropWhile is_blank source)"
proof -
  obtain r where r: "dropWhile is_blank source = r" by simp
  with assms have t4: "take 4 r = ''>>> ''" by simp
  then obtain t where rt: "r = CHR ''>'' # CHR ''>'' # CHR ''>'' # CHR '' '' # t"
    by (cases r; simp add: numeral_eq_Suc; cases "tl r"; simp; cases "tl (tl r)"; simp;
        cases "tl (tl (tl r))"; simp)
  show ?thesis
    by (simp add: quote_content_def is_block_def strip_block_marker_def r rt)
qed

lemma BlockQuote_match_at_start:
  "BlockQuote_match source (st\<lparr>in_quote := False\<rparr>) [] = quote_regex source"
  by (simp add: BlockQuote_match_def line_boundary_def)

lemma BlockQuote_parse_state:
  assumes "BlockQuote_parse capture parse st = Inr (node, st')"
  shows "\<exists>all' nodes. parse (quote_content all') (st\<lparr>in_quote := True\<rparr>) = Inr (nodes, st')"
  using assms
  by (auto simp: BlockQuote_parse_def Let_def split: sum.splits pyval.splits)

subsection \<open>The first match in a table sorted by order\<close>

lemma find_rule_sorted:
  assumes "sorted (map (\<lambda>e. rule_order (snd e)) L)"
    and "(name, r) \<in> set L"
    and "rule_match r source st (prev_capture st) = Inr (Some cap)"
    and "\<forall>e\<in>set L. e = (name, r) \<or> rule_order r < rule_order (snd e)
           \<or> rule_match (snd e) source st (prev_capture st) = Inr None"
  shows "find_rule L source st = Inr (Some (name, r, cap))"
  using assms
proof (induction L)
  case Nil
  then show ?case by simp
next
  case (Cons e L)
  obtain n' r' where e: "e = (n', r')" by (cases e)
  show ?case
  proof (cases "e = (name, r)")
    case True
    then show ?thesis using Cons.prems(3) e by simp
  next
    case False
    then have inL: "(name, r) \<in> set L" using Cons.prems(2) by simp
    have le: "rule_order r' \<le> rule_order r"
      using Cons.prems(1) inL e by force
    have "rule_match r' source st (prev_capture st) = Inr None"
      using Cons.prems(4) False le e by auto
    moreover have "find_rule L source st = Inr (Some (name, r, cap))"
      using Cons.IH Cons.prems inL by simp
    ultimately show ?thesis using e by simp
  qed
qed

lemma find_rule_by_order:
  assumes "(name, r) \<in> set table"
    and "rule_match r source st (prev_capture st) = Inr (Some cap)"
    and "\<forall>e\<in>set table. e = (name, r) \<or> rule_order r < rule_order (snd e)
           \<or> rule_match (snd e) source st (prev_capture st) = Inr None"
  shows "find_rule (by_order table) source st = Inr (Some (name, r, cap))"
  apply (rule find_rule_sorted)
  using assms by (simp_all add: by_order_def)

lemmas rule_defs = BlockQuote_def CodeBlock_def AutoLink_def URL_def Em_def Strike_def
  InlineCode_def Text_def Br_def Emoticon_def Spoiler_def DiscordUser_def DiscordChannel_def
  DiscordRole_def DiscordEmoji_def DiscordEveryone_def DiscordHere_def

lemmas match_defs = DiscordUser_match_def DiscordChannel_match_def DiscordRole_match_def
  DiscordEmoji_match_def DiscordEveryone_match_def DiscordHere_match_def literal_match_def
  InlineCode_match_def Spoiler_match_def Emoticon_match_def BlockQuote_match_def quote_regex_def
  is_blank_def is_quote_line_def id_close_def is_digit_def Let_def

subsection \<open>Emoji through the full table\<close>

lemma find_rule_rules_emoji_animated:
  assumes o: "rule_order (default_rules env ''strong'') < rule_order (default_rules env ''text'')"
    and s: "base_silent env ''<a:wave:999>''"
  shows "find_rule (by_order (rules env)) ''<a:wave:999>'' st =
     Inr (Some (''discord_emoji'', DiscordEmoji (rule_order (default_rules env ''strong'')),
                [Some ''<a:wave:999>'', Some ''a'', Some ''wave'', Some ''999'']))"
  apply (rule find_rule_by_order)
    apply (simp add: rules_def rules_discord_def)
   apply (simp add: DiscordEmoji_def emoji_match_animated)
  using o s [unfolded base_silent_def]
  apply (simp add: rules_def rules_discord_def rule_defs match_defs)
  done

lemma find_rule_rules_emoji_still:
  assumes o: "rule_order (default_rules env ''strong'') < rule_order (default_rules env ''text'')"
    and s: "base_silent env ''<:wave:999>''"
  shows "find_rule (by_order (rules env)) ''<:wave:999>'' st =
     Inr (Some (''discord_emoji'', DiscordEmoji (rule_order (default_rules env ''strong'')),
                [Some ''<:wave:999>'', Some [], Some ''wave'', Some ''999'']))"
  apply (rule find_rule_by_order)
    apply (simp add: rules_def rules_discord_def)
   apply (simp add: DiscordEmoji_def emoji_match_still)
  using o s [unfolded base_silent_def]
  apply (simp add: rules_def rules_discord_def rule_defs match_defs)
  done

lemma parser_emoji_animated:
  assumes "rule_order (default_rules env ''strong'') < rule_order (default_rules env ''text'')"
    and "base_silent env ''<a:wave:999>''"
  shows "parser (Suc n) env ''<a:wave:999>'' st =
     Inr (VList [VDict [(''animated'', VBool True), (''name'', VStr ''wave''), (''id'', VStr ''999''),
                        (''type'', VStr ''discord_emoji'')]],
          st\<lparr>prev_capture := ''<a:wave:999>''\<rparr>)"
  by (simp add: parser_def parser_for_def find_rule_rules_emoji_animated [OF assms]
      nested_parse_empty DiscordEmoji_def DiscordEmoji_parse_def group_val_def tag_node_def)

lemma parser_emoji_still:
  assumes "rule_order (default_rules env ''strong'') < rule_order (default_rules env ''text'')"
    and "base_silent env ''<:wave:999>''"
  shows "parser (Suc n) env ''<:wave:999>'' st =
     Inr (VList [VDict [(''animated'', VBool False), (''name'', VStr ''wave''), (''id'', VStr ''999''),
                        (''type'', VStr ''discord_emoji'')]],
          st\<lparr>prev_capture := ''<:wave:999>''\<rparr>)"
  by (simp add: parser_def parser_for_def find_rule_rules_emoji_still [OF assms]
      nested_parse_empty DiscordEmoji_def DiscordEmoji_parse_def group_val_def tag_node_def)

lemma html_output_emoji:
  assumes "\<And>output. DiscordEmoji_html (VDict [(''animated'', a), (''name'', nm), (''id'', i),
                        (''type'', VStr ''discord_emoji'')]) output st = Inr s"
  shows "html_output (Suc (Suc n)) env
           (VList [VDict [(''animated'', a), (''name'', nm), (''id'', i),
                        (''type'', VStr ''discord_emoji'')]]) st = Inr s"
  using assms
  by (simp add: html_output_def rules_def rules_discord_def DiscordEmoji_def)

lemma initial_state_default_no_css:
  "(initial_state None)\<lparr>prev_capture := p\<rparr>
     = ((initial_state None)\<lparr>prev_capture := p\<rparr>)\<lparr>css_module_names := None\<rparr>"
  by (simp add: initial_state_def no_options_def)

lemma to_html_default:
  "to_html fuel env source None None None =
     (case parser fuel env source (initial_state None) of
        Inl e \<Rightarrow> Inl e
      | Inr (ast, st) \<Rightarrow> html_output fuel env ast st)"
  by (simp add: to_html_def no_options_def split: sum.split)

lemma to_html_emoji_default:
  assumes "rule_order (default_rules env ''strong'') < rule_order (default_rules env ''text'')"
    and "base_silent env ''<a:wave:999>''" and "base_silent env ''<:wave:999>''"
  shows \<open>to_html (Suc (Suc n)) env ''<a:wave:999>'' None None None
      = Inr ''<img class="d-emoji d-emoji-animated" src="https://cdn.discordapp.com/emojis/999.gif" alt=":wave:">''
   \<and> to_html (Suc (Suc n)) env ''<:wave:999>'' None None None
      = Inr ''<img class="d-emoji" src="https://cdn.discordapp.com/emojis/999.png" alt=":wave:">''\<close>
proof -
  have a: "html_output (Suc (Suc n)) env
           (VList [VDict [(''animated'', VBool True), (''name'', VStr ''wave''), (''id'', VStr ''999''),
                        (''type'', VStr ''discord_emoji'')]])
           ((initial_state None)\<lparr>prev_capture := ''<a:wave:999>''\<rparr>)
      = Inr (''<img class='' @ [CHR 0x22] @ ''d-emoji d-emoji-animated'' @ [CHR 0x22]
             @ '' src='' @ [CHR 0x22] @ ''https://cdn.discordapp.com/emojis/999.gif'' @ [CHR 0x22]
             @ '' alt='' @ [CHR 0x22] @ '':wave:'' @ [CHR 0x22] @ ''>'')"
    apply (rule html_output_emoji)
    apply (subst initial_state_default_no_css)
    apply (subst emoji_html_animated)
    apply simp
    done
  have b: "html_output (Suc (Suc n)) env
           (VList [VDict [(''animated'', VBool False), (''name'', VStr ''wave''), (''id'', VStr ''999''),
                        (''type'', VStr ''discord_emoji'')]])
           ((initial_state None)\<lparr>prev_capture := ''<:wave:999>''\<rparr>)
      = Inr (''<img class='' @ [CHR 0x22] @ ''d-emoji'' @ [CHR 0x22]
             @ '' src='' @ [CHR 0x22] @ ''https://cdn.discordapp.com/emojis/999.png'' @ [CHR 0x22]
             @ '' alt='' @ [CHR 0x22] @ '':wave:'' @ [CHR 0x22] @ ''>'')"
    apply (rule html_output_emoji)
    apply (subst initial_state_default_no_css)
    apply (subst emoji_html_still)
    apply simp
    done
  show ?thesis
    using a b
    by (simp add: to_html_default parser_emoji_animated [OF assms(1,2)]
        parser_emoji_still [OF assms(1,3)])
qed

lemma sample_silent: "base_silent sample_environment source"
  by (simp add: base_silent_def sample_environment_def sample_rule_def sample_class_def)

lemma sample_text_parse: "base_text_parse sample_environment"
  by (simp add: base_text_parse_def sample_environment_def sample_rule_def sample_class_def)


subsection \<open>Block quotes through the full table\<close>

lemma quote_regex_head:
  assumes "quote_regex source = Some capture"
  shows "\<exists>c rest. source = c # rest \<and> (c = CHR '' '' \<or> c = CHR ''>'')"
proof (cases source)
  case Nil
  then show ?thesis using assms by (simp add: quote_regex_def is_quote_line_def Let_def)
next
  case (Cons c rest)
  show ?thesis
  proof (rule ccontr)
    assume "\<not> ?thesis"
    then have c: "c \<noteq> CHR '' ''" "c \<noteq> CHR ''>''" using Cons by auto
    have "\<exists>w ws. split_on NL (c # rest) = w # ws \<and> (w = [] \<or> hd w = c)"
      by (cases "split_on NL rest") auto
    then obtain w ws where w: "split_on NL (c # rest) = w # ws" "w = [] \<or> hd w = c" by blast
    have "\<not> is_quote_line w"
      using w(2) c by (cases w) (auto simp: is_quote_line_def is_blank_def)
    then show False
      using assms Cons c w(1) by (simp add: quote_regex_def is_blank_def Let_def)
  qed
qed

lemma module_rules_silent_on_quote:
  assumes "source = c # rest" "c = CHR '' '' \<or> c = CHR ''>''"
  shows "DiscordUser_match source = None" "DiscordChannel_match source = None"
    "DiscordRole_match source = None" "DiscordEmoji_match source = None"
    "DiscordEveryone_match source = None" "DiscordHere_match source = None"
    "InlineCode_match source = None" "Spoiler_match source = None"
    "Emoticon_match source = None"
  using assms
  by (auto simp: DiscordUser_match_def DiscordChannel_match_def DiscordRole_match_def
      DiscordEmoji_match_def DiscordEveryone_match_def DiscordHere_match_def literal_match_def
      InlineCode_match_def Spoiler_match_def Emoticon_match_def split: list.splits)

lemma find_rule_rules_quote:
  assumes o: "rule_order (default_rules env ''block_quote'') < rule_order (default_rules env ''text'')"
    and s: "base_silent env source"
    and q: "quote_regex source = Some capture"
    and st: "\<not> in_quote st" "prev_capture st = []"
  shows "find_rule (by_order (rules env)) source st =
     Inr (Some (''block_quote'', BlockQuote env, capture))"
proof -
  obtain c rest where h: "source = c # rest" "c = CHR '' '' \<or> c = CHR ''>''"
    using quote_regex_head [OF q] by blast
  note m = module_rules_silent_on_quote [OF h]
  show ?thesis
    apply (rule find_rule_by_order)
      apply (simp add: rules_def)
     apply (simp add: BlockQuote_def BlockQuote_match_def line_boundary_def st q)
    using o s [unfolded base_silent_def]
    apply (simp add: rules_def rules_discord_def rule_defs m)
    done
qed

text \<open>
  A source that the quote pattern captures, at the start of a document outside a quote: the
  parser returns a \<open>block_quote\<close> node around the nested parse of the content, then the nodes
  of what follows the capture.
\<close>

lemma parser_quote:
  assumes o: "rule_order (default_rules env ''block_quote'') < rule_order (default_rules env ''text'')"
    and s: "base_silent env source"
    and q: "quote_regex source = Some (Some whole # groups)"
    and st: "\<not> in_quote st"
  shows "parser (Suc n) env source st =
     (case nested_parse n (by_order (rules env)) (quote_content whole)
             (st\<lparr>in_quote := True, prev_capture := []\<rparr>) of
        Inl e \<Rightarrow> Inl e
      | Inr (nodes, st1) \<Rightarrow>
          (case nested_parse n (by_order (rules env)) (drop (length whole) source)
                  (st1\<lparr>prev_capture := whole\<rparr>) of
             Inl e \<Rightarrow> Inl e
           | Inr (others, st2) \<Rightarrow>
               Inr (VList (VDict [(''content'', VList nodes), (''type'', VStr ''block_quote'')]
                           # others), st2)))"
proof -
  have ne: "source \<noteq> []" using quote_regex_head [OF q] by auto
  have f: "find_rule (by_order (rules env)) source (st\<lparr>prev_capture := []\<rparr>) =
     Inr (Some (''block_quote'', BlockQuote env, Some whole # groups))"
    by (rule find_rule_rules_quote [OF o s q]) (simp_all add: st)
  have sw: "st\<lparr>prev_capture := [], in_quote := True\<rparr> = st\<lparr>in_quote := True, prev_capture := []\<rparr>"
    by simp
  show ?thesis
    by (simp add: parser_def parser_for_def ne f BlockQuote_def BlockQuote_parse_def group_val_def
        Let_def tag_node_def sw split: sum.split prod.split)
qed

text \<open>
  Inside a quote, on a source that starts with none of the characters that open a mention, an
  emoji, a code span or a spoiler, Text is the only rule of the module that matches.
\<close>

lemma find_rule_rules_text_in_quote:
  assumes s: "base_silent env (c # rest)"
    and c: "c \<noteq> CHR ''<''" "c \<noteq> CHR ''@''" "c \<noteq> CHR 0x60" "c \<noteq> CHR ''|''"
    and q: "in_quote st"
  shows "find_rule (by_order (rules env)) (c # rest) st =
     Inr (Some (''text'', Text env, [Some (c # take (text_scan rest) rest)]))"
proof -
  have m: "DiscordUser_match (c # rest) = None" "DiscordChannel_match (c # rest) = None"
    "DiscordRole_match (c # rest) = None" "DiscordEmoji_match (c # rest) = None"
    "DiscordEveryone_match (c # rest) = None" "DiscordHere_match (c # rest) = None"
    "InlineCode_match (c # rest) = None" "Spoiler_match (c # rest) = None"
    "Emoticon_match (c # rest) = None"
    using c
    by (auto simp: DiscordUser_match_def DiscordChannel_match_def DiscordRole_match_def
        DiscordEmoji_match_def DiscordEveryone_match_def DiscordHere_match_def literal_match_def
        InlineCode_match_def Spoiler_match_def Emoticon_match_def split: list.splits)
  show ?thesis
    apply (rule find_rule_by_order)
      apply (simp add: rules_def)
     apply (simp add: Text_def Text_match_def)
    using s [unfolded base_silent_def] q
    apply (simp add: rules_def rules_discord_def rule_defs m BlockQuote_match_def)
    done
qed

lemma nested_parse_text_in_quote:
  assumes s: "base_silent env (c # rest)" and t: "base_text_parse env"
    and c: "c \<noteq> CHR ''<''" "c \<noteq> CHR ''@''" "c \<noteq> CHR 0x60" "c \<noteq> CHR ''|''"
    and q: "in_quote st"
  shows "nested_parse (Suc n) (by_order (rules env)) (c # rest) st =
     (case nested_parse n (by_order (rules env)) (drop (text_scan rest) rest)
             (st\<lparr>prev_capture := c # take (text_scan rest) rest\<rparr>) of
        Inl e \<Rightarrow> Inl e
      | Inr (nodes, st2) \<Rightarrow>
          Inr (VDict [(''content'', VStr (c # take (text_scan rest) rest)), (''type'', VStr ''text'')]
               # nodes, st2))"
proof -
  have d: "drop (min (length rest) (text_scan rest)) rest = drop (text_scan rest) rest"
    by (cases "text_scan rest \<le> length rest") (simp_all add: min_def)
  show ?thesis
    using t [unfolded base_text_parse_def]
    by (simp add: find_rule_rules_text_in_quote [OF s c q] Text_def tag_node_def d
        split: sum.split prod.split)
qed

lemma concat_results_single: "concat_results [x] = x"
  by (cases x) simp_all

lemma html_output_quote:
  "html_output (Suc (Suc n)) env
     (VList [VDict [(''content'', c), (''type'', VStr ''block_quote'')]]) st =
   rule_html (default_classes env ''blockquote'')
     (VDict [(''content'', c), (''type'', VStr ''block_quote'')]) (output_for n (rules env)) st"
  by (simp add: html_output_def concat_results_single) (simp add: rules_def BlockQuote_def)

lemma output_text:
  "output_for (Suc (Suc n)) (rules env)
     (VList [VDict [(''content'', VStr text), (''type'', VStr ''text'')]]) st
   = Inr (if escape_html st then sanitize_text text else text)"
  by (simp add: rules_def Text_def Text_html_def)


text \<open>A capture that takes the whole source leaves one node.\<close>

lemma parser_whole_quote:
  assumes o: "rule_order (default_rules env ''block_quote'') < rule_order (default_rules env ''text'')"
    and s: "base_silent env source"
    and q: "quote_regex source = Some (Some source # groups)"
  shows "parser (Suc n) env source (st\<lparr>in_quote := False\<rparr>) =
     (case nested_parse n (by_order (rules env)) (quote_content source)
             (st\<lparr>in_quote := True, prev_capture := []\<rparr>) of
        Inl e \<Rightarrow> Inl e
      | Inr (nodes, st2) \<Rightarrow>
          Inr (VList [VDict [(''content'', VList nodes), (''type'', VStr ''block_quote'')]],
               st2\<lparr>prev_capture := source\<rparr>))"
  using parser_quote [OF o s q, of "st\<lparr>in_quote := False\<rparr>" n]
  by (simp add: nested_parse_empty split: sum.split prod.split)

lemma initial_state_outside_quote: "(initial_state options)\<lparr>in_quote := False\<rparr> = initial_state options"
  by (simp add: initial_state_def Let_def)

lemma initial_state_start: "(initial_state options)\<lparr>in_quote := True, prev_capture := []\<rparr>
    = (initial_state options)\<lparr>in_quote := True\<rparr>"
  by (simp add: initial_state_def Let_def)

lemma quote_hello_regex:
  "quote_regex ''> hello'' = Some [Some ''> hello'', None, None, Some ''> hello'', None]"
  by (simp add: quote_regex_def is_blank_def is_quote_line_def Let_def)

lemma quote_hello_content: "quote_content ''> hello'' = ''hello''"
  by (simp add: quote_content_def is_block_def is_blank_def strip_line_markers_def
      strip_line_marker_def)

lemma quote_block_regex:
  "quote_regex (''>>> a'' @ [NL] @ ''b'')
     = Some [Some (''>>> a'' @ [NL] @ ''b''), Some (''>>> a'' @ [NL] @ ''b''),
             Some (''a'' @ [NL] @ ''b''), None, None]"
  by (simp add: quote_regex_def is_blank_def)

lemma quote_block_content: "quote_content (''>>> a'' @ [NL] @ ''b'') = ''a'' @ [NL] @ ''b''"
  by (simp add: quote_content_def is_block_def is_blank_def strip_block_marker_def)

lemma text_scan_hello: "text_scan ''ello'' = 4"
  by (simp add: text_lookahead_def text_special_def word_colon_def is_word_def is_space_def)

lemma sample_nested_a_b:
  assumes q: "in_quote st"
  shows "nested_parse (Suc (Suc n)) (by_order (rules sample_environment)) (''a'' @ [NL] @ ''b'') st
     = Inr ([VDict [(''content'', VStr ''a''), (''type'', VStr ''text'')],
             VDict [(''content'', VStr (NL # ''b'')), (''type'', VStr ''text'')]],
            st\<lparr>prev_capture := NL # ''b''\<rparr>)"
proof -
  have c1: "CHR ''a'' \<noteq> CHR ''<''" "CHR ''a'' \<noteq> CHR ''@''" "CHR ''a'' \<noteq> CHR 0x60"
    "CHR ''a'' \<noteq> CHR ''|''" by simp_all
  have c2: "NL \<noteq> CHR ''<''" "NL \<noteq> CHR ''@''" "NL \<noteq> CHR 0x60" "NL \<noteq> CHR ''|''" by simp_all
  have t1: "text_scan (NL # ''b'') = 0" by (simp add: text_lookahead_def)
  have t2: "text_scan ''b'' = 1"
    by (simp add: text_lookahead_def text_special_def word_colon_def is_word_def is_space_def)
  have q2: "in_quote (st\<lparr>prev_capture := ''a''\<rparr>)" using q by simp
  have second: "nested_parse (Suc n) (by_order (rules sample_environment)) (NL # ''b'')
        (st\<lparr>prev_capture := ''a''\<rparr>)
     = Inr ([VDict [(''content'', VStr (NL # ''b'')), (''type'', VStr ''text'')]],
            st\<lparr>prev_capture := NL # ''b''\<rparr>)"
    by (subst nested_parse_text_in_quote [OF sample_silent sample_text_parse c2 q2])
      (simp add: t2 nested_parse_empty del: text_scan.simps)
  have "nested_parse (Suc (Suc n)) (by_order (rules sample_environment)) (CHR ''a'' # NL # ''b'') st
     = Inr ([VDict [(''content'', VStr ''a''), (''type'', VStr ''text'')],
             VDict [(''content'', VStr (NL # ''b'')), (''type'', VStr ''text'')]],
            st\<lparr>prev_capture := NL # ''b''\<rparr>)"
    by (subst nested_parse_text_in_quote [OF sample_silent sample_text_parse c1 q])
      (simp add: t1 second del: text_scan.simps nested_parse.simps)
  then show ?thesis by simp
qed

subsection \<open>Mentions through the mentions-only table\<close>

lemma find_rule_channel_123:
  "find_rule (rules_discord_only env) ''<123>'' st =
     Inr (Some (''discord_channel'', DiscordChannel (rule_order (default_rules env ''strong'')),
                [Some ''<123>'', Some ''123'']))"
  by (simp add: rules_discord_only_def rules_discord_def DiscordUser_def DiscordChannel_def
      DiscordUser_match_def DiscordChannel_match_def id_close_def is_digit_def)

lemma find_rule_user_empty:
  "find_rule (rules_discord_only env) ''<@>'' st =
     Inr (Some (''discord_user'', DiscordUser (rule_order (default_rules env ''strong'')),
                [Some ''<@>'', Some []]))"
  by (simp add: rules_discord_only_def rules_discord_def DiscordUser_def
      DiscordUser_match_def id_close_def is_digit_def)

lemma parser_discord_channel_123:
  assumes "rule_order (default_rules env ''strong'') < rule_order (default_rules env ''text'')"
  shows "parser_discord (Suc n) env ''<123>'' st =
     Inr (VList [VDict [(''id'', VStr ''123''), (''type'', VStr ''discord_channel'')]],
          st\<lparr>prev_capture := ''<123>''\<rparr>)"
  using assms
  by (simp add: parser_discord_def parser_for_def by_order_discord_only find_rule_channel_123
      nested_parse_empty DiscordChannel_def id_parse_def group_val_def tag_node_def)

lemma parser_discord_user_empty:
  assumes "rule_order (default_rules env ''strong'') < rule_order (default_rules env ''text'')"
  shows "parser_discord (Suc n) env ''<@>'' st =
     Inr (VList [VDict [(''id'', VStr []), (''type'', VStr ''discord_user'')]],
          st\<lparr>prev_capture := ''<@>''\<rparr>)"
  using assms
  by (simp add: parser_discord_def parser_for_def by_order_discord_only find_rule_user_empty
      nested_parse_empty DiscordUser_def id_parse_def group_val_def tag_node_def)

lemma html_output_discord_channel:
  assumes "discord_callback st ''channel'' = Some callback"
    and "callback (VDict [(''id'', VStr ident), (''type'', VStr ''discord_channel'')]) = Inr content"
  shows "html_output_discord (Suc (Suc n)) env
           (VList [VDict [(''id'', VStr ident), (''type'', VStr ''discord_channel'')]]) st =
     Inr (''<span class='' @ [CHR 0x22] @ ''d-mention d-channel'' @ [CHR 0x22] @ ''>'' @ content @ ''</span>'')"
  using assms
  by (simp add: html_output_discord_def rules_discord_only_def rules_discord_def
      DiscordChannel_def mention_html_def html_tag_def state_truthy_def sanitize_text_def)

subsection \<open>The claims\<close>

text \<open>
  C1. The fallback of \<^verbatim>\<open>CodeBlock.html\<close> does not return: whenever no highlighted markup is
  there (the language is empty, or the lexer lookup gives nothing for it), the function reads
  \<^verbatim>\<open>node.content\<close> on a dict and raises AttributeError, where the claim has it return the
  escaped text inside \<^verbatim>\<open>pre\<close> and \<^verbatim>\<open>code\<close> with class \<^verbatim>\<open>hljs\<close>.
\<close>

theorem C1_code_block_fallback_raises:
  "CodeBlock_html (pyg\<lparr>get_lexer_by_name := (\<lambda>name. Inr None)\<rparr>)
      (VDict [(''lang'', VStr l), (''content'', VStr c), (''in_quote'', VBool q),
              (''type'', VStr ''code_block'')]) output st
     = Inl AttributeError
   \<and> CodeBlock_html pyg
      (VDict [(''lang'', VStr []), (''content'', VStr ''print(1)''), (''in_quote'', VBool False),
              (''type'', VStr ''code_block'')]) output st
     = Inl AttributeError"
  by (simp add: CodeBlock_html_def dict_methods_def split: option.splits)

text \<open>
  C2. \<^verbatim>\<open>BlockQuote.parse\<close> leaves \<^verbatim>\<open>in_quote\<close> set in the caller's state: whenever it
  returns, and the nested parse hands the flag back as it found it, the flag is true afterwards
  and \<^verbatim>\<open>BlockQuote.match\<close> fails on every later source, where the claim has the flag back
  at its old value and a later block quote still matching.
\<close>

theorem C2_in_quote_stays_set:
  assumes "BlockQuote_parse capture parse st = Inr (node, st')"
    and "\<forall>source s nodes s'. parse source s = Inr (nodes, s') \<longrightarrow> in_quote s' = in_quote s"
  shows "in_quote st' \<and> BlockQuote_match later_source st' previous_source = None"
proof -
  from BlockQuote_parse_state [OF assms(1)] obtain all' nodes
    where "parse (quote_content all') (st\<lparr>in_quote := True\<rparr>) = Inr (nodes, st')" by blast
  with assms(2) have "in_quote st' = in_quote (st\<lparr>in_quote := True\<rparr>)" by blast
  then have "in_quote st'" by simp
  then show ?thesis by (simp add: BlockQuote_match_def)
qed

text \<open>
  The document \<^verbatim>\<open>"> a\nb\n> c"\<close> from the state of \<^verbatim>\<open>to_html\<close>: the first quote matches
  and is parsed; after that the second quote, which matches in the initial state, does not.
\<close>

theorem C2_in_quote_stays_set_witness:
  "BlockQuote_match (''> a'' @ [NL] @ ''b'' @ [NL] @ ''> c'') (initial_state None) []
     = Some [Some (''> a'' @ [NL]), None, None, Some (''> a'' @ [NL]), None]
   \<and> BlockQuote_parse [Some (''> a'' @ [NL]), None, None, Some (''> a'' @ [NL]), None]
        (\<lambda>source s. Inr ([VDict [(''content'', VStr source), (''type'', VStr ''text'')]], s))
        (initial_state None)
     = Inr (VDict [(''content'',
                     VList [VDict [(''content'', VStr (''a'' @ [NL])), (''type'', VStr ''text'')]]),
                   (''type'', VStr ''block_quote'')],
            (initial_state None)\<lparr>in_quote := True\<rparr>)
   \<and> in_quote ((initial_state None)\<lparr>in_quote := True\<rparr>)
   \<and> BlockQuote_match ''> c'' ((initial_state None)\<lparr>in_quote := True\<rparr>) [NL] = None
   \<and> BlockQuote_match ''> c'' (initial_state None) [NL]
     = Some [Some ''> c'', None, None, Some ''> c'', None]"
proof -
  have p: "BlockQuote_parse [Some (''> a'' @ [NL]), None, None, Some (''> a'' @ [NL]), None]
        (\<lambda>source s. Inr ([VDict [(''content'', VStr source), (''type'', VStr ''text'')]], s))
        (initial_state None)
     = Inr (VDict [(''content'',
                     VList [VDict [(''content'', VStr (''a'' @ [NL])), (''type'', VStr ''text'')]]),
                   (''type'', VStr ''block_quote'')],
            (initial_state None)\<lparr>in_quote := True\<rparr>)"
    by (simp add: BlockQuote_parse_def group_val_def quote_content_def is_block_def is_blank_def
        strip_line_markers_def strip_line_marker_def)
  have m0: "BlockQuote_match (''> a'' @ [NL] @ ''b'' @ [NL] @ ''> c'') (initial_state None) []
     = Some [Some (''> a'' @ [NL]), None, None, Some (''> a'' @ [NL]), None]"
    by (simp add: BlockQuote_match_def line_boundary_def initial_state_def quote_regex_def Let_def
        is_blank_def is_quote_line_def)
  have m1: "BlockQuote_match ''> c'' (initial_state None) [NL]
     = Some [Some ''> c'', None, None, Some ''> c'', None]"
    by (simp add: BlockQuote_match_def line_boundary_def initial_state_def quote_regex_def Let_def
        is_blank_def is_quote_line_def)
  show ?thesis
    using C2_in_quote_stays_set [OF p, of "''> c''" "[NL]"] p m0 m1 by simp
qed

text \<open>
  C3. With a remap table in the state, the tag builder does not remap whole class tokens: for
  the class value \<^verbatim>\<open>ab cd\<close> and the table \<^verbatim>\<open>{'ab': 'x'}\<close> it emits the characters of the
  value separated by spaces, \<^verbatim>\<open>a b   c d\<close>, where remapping token by token gives \<^verbatim>\<open>x cd\<close>.
\<close>

theorem C3_html_tag_class_cut_into_characters:
  \<open>html_tag ''span'' ''t'' (Some [(''class'', ''ab cd'')]) True
      (Some (st\<lparr>css_module_names := Some [(''ab'', ''x'')]\<rparr>))
     = ''<span class="a b   c d">t</span>''
   \<and> remap_tokens_spec [(''ab'', ''x'')] ''ab cd'' = ''x cd''\<close>
  by (simp add: html_tag_def remap_class_def remap_tokens_spec_def sanitize_text_def)

text \<open>
  C4. With the mentions-only table, \<^verbatim>\<open>to_html("<@123>")\<close> returns a span of class
  \<^verbatim>\<open>d-mention d-user\<close> around \<^verbatim>\<open>@123\<close>, and with a user callback that returns
  \<^verbatim>\<open>custom\<close> the same span around \<^verbatim>\<open>custom\<close>, for every recursion bound of two or more.
  The option that carries the callbacks is \<^verbatim>\<open>discord_callback\<close> in the code. The table is
  in order when the order of \<^verbatim>\<open>strong\<close> is below that of \<^verbatim>\<open>text\<close>.
\<close>

theorem C4_user_mention_rendered:
  assumes "rule_order (default_rules env ''strong'') < rule_order (default_rules env ''text'')"
  shows \<open>to_html (Suc (Suc n)) env ''<@123>''
           (Some (opts\<lparr>discord_only := Some True, opt_discord_callback := None\<rparr>)) None None
         = Inr ''<span class="d-mention d-user">@123</span>''
       \<and> to_html (Suc (Suc n)) env ''<@123>''
           (Some (opts\<lparr>discord_only := Some True,
                       opt_discord_callback := Some [(''user'', \<lambda>node. Inr ''custom'')]\<rparr>)) None None
         = Inr ''<span class="d-mention d-user">custom</span>''\<close>
proof -
  let ?o1 = "Some (opts\<lparr>discord_only := Some True, opt_discord_callback := None\<rparr>)"
  let ?o2 = "Some (opts\<lparr>discord_only := Some True,
                       opt_discord_callback := Some [(''user'', \<lambda>node. Inr ''custom'')]\<rparr>)"
  have cb1: "discord_callback ((initial_state ?o1)\<lparr>prev_capture := ''<@123>''\<rparr>) ''user''
               = Some (id_callback ''@'')"
    by (simp add: initial_state_def discord_callback_defaults_def)
  have cb2: "discord_callback ((initial_state ?o2)\<lparr>prev_capture := ''<@123>''\<rparr>) ''user''
               = Some (\<lambda>node. Inr ''custom'')"
    by (simp add: initial_state_def discord_callback_defaults_def)
  have r1: "html_output_discord (Suc (Suc n)) env
              (VList [VDict [(''id'', VStr ''123''), (''type'', VStr ''discord_user'')]])
              ((initial_state ?o1)\<lparr>prev_capture := ''<@123>''\<rparr>)
            = Inr (''<span class='' @ [CHR 0x22] @ ''d-mention d-user'' @ [CHR 0x22] @ ''>''
                     @ ''@123'' @ ''</span>'')"
    by (rule html_output_discord_user [OF cb1 id_callback_123])
  have r2: "html_output_discord (Suc (Suc n)) env
              (VList [VDict [(''id'', VStr ''123''), (''type'', VStr ''discord_user'')]])
              ((initial_state ?o2)\<lparr>prev_capture := ''<@123>''\<rparr>)
            = Inr (''<span class='' @ [CHR 0x22] @ ''d-mention d-user'' @ [CHR 0x22] @ ''>''
                     @ ''custom'' @ ''</span>'')"
    by (rule html_output_discord_user [OF cb2]) simp
  show ?thesis
    using r1 r2 by (simp add: to_html_def parser_discord_user_123 [OF assms])
qed

theorem C4_user_mention_rendered_witness:
  \<open>rule_order (default_rules sample_environment ''strong'')
     < rule_order (default_rules sample_environment ''text'')
   \<and> to_html 2 sample_environment ''<@123>''
       (Some \<lparr>embed = None, opt_escape_html = None, discord_only = Some True,
              opt_discord_callback = Some [(''user'', \<lambda>node. Inr ''custom'')],
              opt_css_module_names = None\<rparr>) None None
     = Inr ''<span class="d-mention d-user">custom</span>''\<close>
proof -
  have h: "rule_order (default_rules sample_environment ''strong'')
     < rule_order (default_rules sample_environment ''text'')"
    by (simp add: sample_environment_def sample_rule_def)
  show ?thesis
    using h C4_user_mention_rendered [OF h, of 0 no_options]
    by (simp add: no_options_def numeral_2_eq_2)
qed

text \<open>
  C5. \<^verbatim>\<open>Em.parse\<close> never returns: \<^verbatim>\<open>super()\<close> without arguments in a static method
  whose first argument is the capture raises TypeError before the base parse runs, so no
  emphasis node is built and nothing is collapsed. That holds of the function and of the
  \<^verbatim>\<open>em\<close> rule of the tables, whatever the base class is.
\<close>

theorem C5_em_parse_raises:
  "Em_parse base_parse capture parse st = Inl TypeError
   \<and> rule_parse (Em env) capture parse st = Inl TypeError"
  by (simp add: Em_def Em_parse_def zero_argument_super_def capture_is_instance_of_Em_def)

text \<open>
  C6. With the default options and the full table, the parser takes \<^verbatim>\<open>"> hello"\<close> to one
  \<^verbatim>\<open>block_quote\<close> node whose content is the one text node \<^verbatim>\<open>hello\<close>, and \<^verbatim>\<open>to_html\<close>
  hands that node to the renderer that the block quote rule inherits, whose children render
  as \<^verbatim>\<open>hello\<close>. It takes \<^verbatim>\<open>">>> a\nb"\<close> to one \<^verbatim>\<open>block_quote\<close> node whose content is the
  nested parse of \<^verbatim>\<open>a\nb\<close>. In general a source in block form is captured to its end and
  gives one node around the parse of what follows the first marker, unchanged; and of a source
  made of quote lines every line is captured and the one node is around the parse of the lines
  without their markers. The conditions are on the base package alone: its own rules match
  none of the sources, its block quote rule comes before its text rule, and its text rule
  builds a text node.
\<close>

theorem C6_block_quote_through_parser:
  assumes o: "rule_order (default_rules env ''block_quote'') < rule_order (default_rules env ''text'')"
    and s1: "base_silent env ''> hello''" and s2: "base_silent env ''hello''"
    and s3: "base_silent env (''>>> a'' @ [NL] @ ''b'')"
    and t: "base_text_parse env"
  shows
   "parser (Suc (Suc n)) env ''> hello'' (st\<lparr>in_quote := False\<rparr>)
      = Inr (VList [VDict [(''content'',
                             VList [VDict [(''content'', VStr ''hello''), (''type'', VStr ''text'')]]),
                           (''type'', VStr ''block_quote'')]],
             st\<lparr>in_quote := True, prev_capture := ''> hello''\<rparr>)
    \<and> to_html (Suc (Suc n)) env ''> hello'' None None None
      = rule_html (default_classes env ''blockquote'')
          (VDict [(''content'',
                   VList [VDict [(''content'', VStr ''hello''), (''type'', VStr ''text'')]]),
                  (''type'', VStr ''block_quote'')])
          (output_for n (rules env))
          ((initial_state None)\<lparr>in_quote := True, prev_capture := ''> hello''\<rparr>)
    \<and> output_for (Suc (Suc n)) (rules env)
          (VList [VDict [(''content'', VStr ''hello''), (''type'', VStr ''text'')]])
          ((initial_state None)\<lparr>in_quote := True, prev_capture := ''> hello''\<rparr>)
      = Inr ''hello''
    \<and> parser (Suc n) env (''>>> a'' @ [NL] @ ''b'') (st\<lparr>in_quote := False\<rparr>)
      = (case nested_parse n (by_order (rules env)) (''a'' @ [NL] @ ''b'')
                (st\<lparr>in_quote := True, prev_capture := []\<rparr>) of
           Inl e \<Rightarrow> Inl e
         | Inr (nodes, st2) \<Rightarrow>
             Inr (VList [VDict [(''content'', VList nodes), (''type'', VStr ''block_quote'')]],
                  st2\<lparr>prev_capture := ''>>> a'' @ [NL] @ ''b''\<rparr>))
    \<and> to_html (Suc (Suc n)) env (''>>> a'' @ [NL] @ ''b'') None None None
      = (case nested_parse (Suc n) (by_order (rules env)) (''a'' @ [NL] @ ''b'')
                ((initial_state None)\<lparr>in_quote := True\<rparr>) of
           Inl e \<Rightarrow> Inl e
         | Inr (nodes, st2) \<Rightarrow>
             rule_html (default_classes env ''blockquote'')
               (VDict [(''content'', VList nodes), (''type'', VStr ''block_quote'')])
               (output_for n (rules env))
               (st2\<lparr>prev_capture := ''>>> a'' @ [NL] @ ''b''\<rparr>))
    \<and> (take 4 (dropWhile is_blank source) = ''>>> '' \<and> base_silent env source \<longrightarrow>
         BlockQuote_match source (st\<lparr>in_quote := False\<rparr>) []
           = Some [Some source, Some source, Some (drop 4 (dropWhile is_blank source)), None, None]
         \<and> parser (Suc n) env source (st\<lparr>in_quote := False\<rparr>)
           = (case nested_parse n (by_order (rules env)) (drop 4 (dropWhile is_blank source))
                     (st\<lparr>in_quote := True, prev_capture := []\<rparr>) of
                Inl e \<Rightarrow> Inl e
              | Inr (nodes, st2) \<Rightarrow>
                  Inr (VList [VDict [(''content'', VList nodes), (''type'', VStr ''block_quote'')]],
                       st2\<lparr>prev_capture := source\<rparr>)))
    \<and> (ls \<noteq> [] \<and> list_all is_quote_line ls \<and> list_all (\<lambda>l. NL \<notin> set l) ls
        \<and> base_silent env (join [NL] ls) \<longrightarrow>
         BlockQuote_match (join [NL] ls) (st\<lparr>in_quote := False\<rparr>) []
           = Some [Some (join [NL] ls), None, None, Some (join [NL] ls),
                   (if 2 \<le> length ls then Some (NL # last ls) else None)]
         \<and> parser (Suc n) env (join [NL] ls) (st\<lparr>in_quote := False\<rparr>)
           = (case nested_parse n (by_order (rules env))
                     (join [NL] (map (\<lambda>l. drop 2 (dropWhile is_blank l)) ls))
                     (st\<lparr>in_quote := True, prev_capture := []\<rparr>) of
                Inl e \<Rightarrow> Inl e
              | Inr (nodes, st2) \<Rightarrow>
                  Inr (VList [VDict [(''content'', VList nodes), (''type'', VStr ''block_quote'')]],
                       st2\<lparr>prev_capture := join [NL] ls\<rparr>)))"
proof -
  have hello: "nested_parse (Suc n) (by_order (rules env)) ''hello'' st
        = Inr ([VDict [(''content'', VStr ''hello''), (''type'', VStr ''text'')]],
               st\<lparr>prev_capture := ''hello''\<rparr>)" if q: "in_quote st" for n st
  proof -
    have c: "CHR ''h'' \<noteq> CHR ''<''" "CHR ''h'' \<noteq> CHR ''@''" "CHR ''h'' \<noteq> CHR 0x60"
      "CHR ''h'' \<noteq> CHR ''|''" by simp_all
    show ?thesis
      by (subst nested_parse_text_in_quote [OF s2 t c q])
        (simp add: text_scan_hello nested_parse_empty del: text_scan.simps)
  qed
  have A1: "\<And>n st. parser (Suc (Suc n)) env ''> hello'' (st\<lparr>in_quote := False\<rparr>)
      = Inr (VList [VDict [(''content'',
                             VList [VDict [(''content'', VStr ''hello''), (''type'', VStr ''text'')]]),
                           (''type'', VStr ''block_quote'')]],
             st\<lparr>in_quote := True, prev_capture := ''> hello''\<rparr>)"
    by (simp add: parser_whole_quote [OF o s1 quote_hello_regex] quote_hello_content hello
        del: nested_parse.simps)
  have B1: "\<And>n st. parser (Suc n) env (''>>> a'' @ [NL] @ ''b'') (st\<lparr>in_quote := False\<rparr>)
      = (case nested_parse n (by_order (rules env)) (''a'' @ [NL] @ ''b'')
                (st\<lparr>in_quote := True, prev_capture := []\<rparr>) of
           Inl e \<Rightarrow> Inl e
         | Inr (nodes, st2) \<Rightarrow>
             Inr (VList [VDict [(''content'', VList nodes), (''type'', VStr ''block_quote'')]],
                  st2\<lparr>prev_capture := ''>>> a'' @ [NL] @ ''b''\<rparr>))"
    by (simp only: parser_whole_quote [OF o s3 quote_block_regex] quote_block_content)
  have A2: "to_html (Suc (Suc n)) env ''> hello'' None None None
      = rule_html (default_classes env ''blockquote'')
          (VDict [(''content'',
                   VList [VDict [(''content'', VStr ''hello''), (''type'', VStr ''text'')]]),
                  (''type'', VStr ''block_quote'')])
          (output_for n (rules env))
          ((initial_state None)\<lparr>in_quote := True, prev_capture := ''> hello''\<rparr>)"
    using A1 [of n "initial_state None"]
    by (simp add: to_html_default initial_state_outside_quote html_output_quote)
  have A3: "output_for (Suc (Suc n)) (rules env)
          (VList [VDict [(''content'', VStr ''hello''), (''type'', VStr ''text'')]])
          ((initial_state None)\<lparr>in_quote := True, prev_capture := ''> hello''\<rparr>)
      = Inr ''hello''"
    by (subst output_text) (simp add: initial_state_def no_options_def sanitize_text_def)
  have B2: "to_html (Suc (Suc n)) env (''>>> a'' @ [NL] @ ''b'') None None None
      = (case nested_parse (Suc n) (by_order (rules env)) (''a'' @ [NL] @ ''b'')
                ((initial_state None)\<lparr>in_quote := True\<rparr>) of
           Inl e \<Rightarrow> Inl e
         | Inr (nodes, st2) \<Rightarrow>
             rule_html (default_classes env ''blockquote'')
               (VDict [(''content'', VList nodes), (''type'', VStr ''block_quote'')])
               (output_for n (rules env))
               (st2\<lparr>prev_capture := ''>>> a'' @ [NL] @ ''b''\<rparr>))"
    using B1 [of "Suc n" "initial_state None"]
    by (simp add: to_html_default initial_state_outside_quote initial_state_start
        html_output_quote split: sum.split prod.split)
  have G1: "take 4 (dropWhile is_blank source) = ''>>> '' \<and> base_silent env source \<longrightarrow>
         BlockQuote_match source (st\<lparr>in_quote := False\<rparr>) []
           = Some [Some source, Some source, Some (drop 4 (dropWhile is_blank source)), None, None]
         \<and> parser (Suc n) env source (st\<lparr>in_quote := False\<rparr>)
           = (case nested_parse n (by_order (rules env)) (drop 4 (dropWhile is_blank source))
                     (st\<lparr>in_quote := True, prev_capture := []\<rparr>) of
                Inl e \<Rightarrow> Inl e
              | Inr (nodes, st2) \<Rightarrow>
                  Inr (VList [VDict [(''content'', VList nodes), (''type'', VStr ''block_quote'')]],
                       st2\<lparr>prev_capture := source\<rparr>))"
  proof (intro impI, elim conjE)
    assume b: "take 4 (dropWhile is_blank source) = ''>>> ''" and s: "base_silent env source"
    show "BlockQuote_match source (st\<lparr>in_quote := False\<rparr>) []
           = Some [Some source, Some source, Some (drop 4 (dropWhile is_blank source)), None, None]
         \<and> parser (Suc n) env source (st\<lparr>in_quote := False\<rparr>)
           = (case nested_parse n (by_order (rules env)) (drop 4 (dropWhile is_blank source))
                     (st\<lparr>in_quote := True, prev_capture := []\<rparr>) of
                Inl e \<Rightarrow> Inl e
              | Inr (nodes, st2) \<Rightarrow>
                  Inr (VList [VDict [(''content'', VList nodes), (''type'', VStr ''block_quote'')]],
                       st2\<lparr>prev_capture := source\<rparr>))"
      by (simp only: BlockQuote_match_at_start block_form_regex [OF b]
          parser_whole_quote [OF o s block_form_regex [OF b]] block_form_content [OF b] simp_thms)
  qed
  have G2: "ls \<noteq> [] \<and> list_all is_quote_line ls \<and> list_all (\<lambda>l. NL \<notin> set l) ls
        \<and> base_silent env (join [NL] ls) \<longrightarrow>
         BlockQuote_match (join [NL] ls) (st\<lparr>in_quote := False\<rparr>) []
           = Some [Some (join [NL] ls), None, None, Some (join [NL] ls),
                   (if 2 \<le> length ls then Some (NL # last ls) else None)]
         \<and> parser (Suc n) env (join [NL] ls) (st\<lparr>in_quote := False\<rparr>)
           = (case nested_parse n (by_order (rules env))
                     (join [NL] (map (\<lambda>l. drop 2 (dropWhile is_blank l)) ls))
                     (st\<lparr>in_quote := True, prev_capture := []\<rparr>) of
                Inl e \<Rightarrow> Inl e
              | Inr (nodes, st2) \<Rightarrow>
                  Inr (VList [VDict [(''content'', VList nodes), (''type'', VStr ''block_quote'')]],
                       st2\<lparr>prev_capture := join [NL] ls\<rparr>))"
  proof (intro impI, elim conjE)
    assume q1: "ls \<noteq> []" and q2: "list_all is_quote_line ls"
      and q3: "list_all (\<lambda>l. NL \<notin> set l) ls" and s: "base_silent env (join [NL] ls)"
    show "BlockQuote_match (join [NL] ls) (st\<lparr>in_quote := False\<rparr>) []
           = Some [Some (join [NL] ls), None, None, Some (join [NL] ls),
                   (if 2 \<le> length ls then Some (NL # last ls) else None)]
         \<and> parser (Suc n) env (join [NL] ls) (st\<lparr>in_quote := False\<rparr>)
           = (case nested_parse n (by_order (rules env))
                     (join [NL] (map (\<lambda>l. drop 2 (dropWhile is_blank l)) ls))
                     (st\<lparr>in_quote := True, prev_capture := []\<rparr>) of
                Inl e \<Rightarrow> Inl e
              | Inr (nodes, st2) \<Rightarrow>
                  Inr (VList [VDict [(''content'', VList nodes), (''type'', VStr ''block_quote'')]],
                       st2\<lparr>prev_capture := join [NL] ls\<rparr>))"
      by (simp only: BlockQuote_match_at_start quote_lines_regex [OF q1 q2 q3]
          parser_whole_quote [OF o s quote_lines_regex [OF q1 q2 q3]]
          quote_lines_content [OF q1 q2 q3] simp_thms)
  qed
  show ?thesis
    using A1 [of n st] A2 A3 B1 [of n st] B2 G1 G2 by (intro conjI)
qed

theorem C6_block_quote_through_parser_witness:
  \<open>rule_order (default_rules sample_environment ''block_quote'')
      < rule_order (default_rules sample_environment ''text'')
   \<and> base_silent sample_environment ''> hello'' \<and> base_silent sample_environment ''hello''
   \<and> base_silent sample_environment (''>>> a'' @ [NL] @ ''b'')
   \<and> base_text_parse sample_environment
   \<and> to_html 4 sample_environment ''> hello'' None None None = Inr ''<blockquote >hello</blockquote>''
   \<and> take 4 (dropWhile is_blank (''  >>> a'' @ [NL] @ ''b'')) = ''>>> ''
   \<and> base_silent sample_environment (''  >>> a'' @ [NL] @ ''b'')
   \<and> parser 3 sample_environment (''  >>> a'' @ [NL] @ ''b'') (initial_state None)
      = Inr (VList [VDict [(''content'',
                             VList [VDict [(''content'', VStr ''a''), (''type'', VStr ''text'')],
                                    VDict [(''content'', VStr (NL # ''b'')), (''type'', VStr ''text'')]]),
                           (''type'', VStr ''block_quote'')]],
             (initial_state None)\<lparr>in_quote := True, prev_capture := ''  >>> a'' @ [NL] @ ''b''\<rparr>)
   \<and> list_all is_quote_line [''> a'', ''  > b'']
   \<and> list_all (\<lambda>l. NL \<notin> set l) [''> a'', ''  > b'']
   \<and> base_silent sample_environment (join [NL] [''> a'', ''  > b''])
   \<and> parser 3 sample_environment (''> a'' @ [NL] @ ''  > b'') (initial_state None)
      = Inr (VList [VDict [(''content'',
                             VList [VDict [(''content'', VStr ''a''), (''type'', VStr ''text'')],
                                    VDict [(''content'', VStr (NL # ''b'')), (''type'', VStr ''text'')]]),
                           (''type'', VStr ''block_quote'')]],
             (initial_state None)\<lparr>in_quote := True, prev_capture := ''> a'' @ [NL] @ ''  > b''\<rparr>)\<close>
proof -
  have o: "rule_order (default_rules sample_environment ''block_quote'')
      < rule_order (default_rules sample_environment ''text'')"
    by (simp add: sample_environment_def sample_rule_def)
  note silent = sample_silent
  note T = C6_block_quote_through_parser [OF o silent silent silent sample_text_parse]
  have b: "take 4 (dropWhile is_blank (''  >>> a'' @ [NL] @ ''b'')) = ''>>> ''"
    by (simp add: is_blank_def)
  have l: "[''> a'', ''  > b''] \<noteq> [] \<and> list_all is_quote_line [''> a'', ''  > b'']
      \<and> list_all (\<lambda>l. NL \<notin> set l) [''> a'', ''  > b'']"
    by (simp add: is_quote_line_def is_blank_def)
  have nest: "nested_parse 2 (by_order (rules sample_environment)) (''a'' @ [NL] @ ''b'')
        ((initial_state None)\<lparr>in_quote := True, prev_capture := []\<rparr>)
     = Inr ([VDict [(''content'', VStr ''a''), (''type'', VStr ''text'')],
             VDict [(''content'', VStr (NL # ''b'')), (''type'', VStr ''text'')]],
            (initial_state None)\<lparr>in_quote := True, prev_capture := NL # ''b''\<rparr>)"
    using sample_nested_a_b [of "(initial_state None)\<lparr>in_quote := True, prev_capture := []\<rparr>" 0]
    by (simp add: numeral_2_eq_2 del: nested_parse.simps)
  have h: "to_html 4 sample_environment ''> hello'' None None None
      = Inr ''<blockquote >hello</blockquote>''"
    using T [where n = 2 and st = "initial_state None" and source = "[]" and ls = "[]"]
      T [where n = 0 and st = "initial_state None" and source = "[]" and ls = "[]"]
    by (simp add: numeral_eq_Suc sample_environment_def sample_class_def html_tag_def
        state_truthy_def del: output_for.simps)
  have g1: "parser 3 sample_environment (''  >>> a'' @ [NL] @ ''b'') (initial_state None)
      = Inr (VList [VDict [(''content'',
                             VList [VDict [(''content'', VStr ''a''), (''type'', VStr ''text'')],
                                    VDict [(''content'', VStr (NL # ''b'')), (''type'', VStr ''text'')]]),
                           (''type'', VStr ''block_quote'')]],
             (initial_state None)\<lparr>in_quote := True, prev_capture := ''  >>> a'' @ [NL] @ ''b''\<rparr>)"
    using T [where n = 2 and st = "initial_state None"
        and source = "''  >>> a'' @ [NL] @ ''b''" and ls = "[]"] b silent nest
    by (simp add: numeral_3_eq_3 numeral_2_eq_2 initial_state_outside_quote is_blank_def
        del: nested_parse.simps)
  have g2: "parser 3 sample_environment (''> a'' @ [NL] @ ''  > b'') (initial_state None)
      = Inr (VList [VDict [(''content'',
                             VList [VDict [(''content'', VStr ''a''), (''type'', VStr ''text'')],
                                    VDict [(''content'', VStr (NL # ''b'')), (''type'', VStr ''text'')]]),
                           (''type'', VStr ''block_quote'')]],
             (initial_state None)\<lparr>in_quote := True, prev_capture := ''> a'' @ [NL] @ ''  > b''\<rparr>)"
    using T [where n = 2 and st = "initial_state None"
        and source = "[]" and ls = "[''> a'', ''  > b'']"] l silent nest
    by (simp add: numeral_3_eq_3 numeral_2_eq_2 initial_state_outside_quote is_blank_def
        del: nested_parse.simps)
  show ?thesis
    using o silent sample_text_parse h b g1 l g2 by (intro conjI) simp_all
qed

text \<open>
  C7. The mention rules take tokens that the claim excludes. The user and role rules match
  \<^verbatim>\<open><@>\<close>, \<^verbatim>\<open><@!>\<close> and \<^verbatim>\<open><@&>\<close>, which hold no id, and the channel rule matches
  \<^verbatim>\<open><#>\<close>, and also \<^verbatim>\<open><123>\<close> and \<^verbatim>\<open><>\<close>, which hold no \<^verbatim>\<open>#\<close>. The other rules of the
  module do not: the emoji rule refuses \<^verbatim>\<open><:wave:>\<close>, which holds no id, and the user and
  role rules refuse a token without their signs. What the three rules match is, exactly, the
  sources that begin with the opening bracket, the sign (for a channel, the sign or nothing), a
  run of digits that may be empty, and the closing bracket. With the mentions-only table
  \<^verbatim>\<open>to_html\<close> renders \<^verbatim>\<open><123>\<close> as a mention of the channel 123 and \<^verbatim>\<open><@>\<close> as a mention of
  a user with the empty id.
\<close>

theorem C7_mention_without_id_or_sign:
  assumes o: "rule_order (default_rules env ''strong'') < rule_order (default_rules env ''text'')"
  shows \<open>DiscordUser_match ''<@>'' = Some [Some ''<@>'', Some []]
   \<and> DiscordUser_match ''<@!>'' = Some [Some ''<@!>'', Some []]
   \<and> DiscordRole_match ''<@&>'' = Some [Some ''<@&>'', Some []]
   \<and> DiscordChannel_match ''<#>'' = Some [Some ''<#>'', Some []]
   \<and> DiscordChannel_match ''<123>'' = Some [Some ''<123>'', Some ''123'']
   \<and> DiscordChannel_match ''<>'' = Some [Some ''<>'', Some []]
   \<and> DiscordEmoji_match ''<:wave:>'' = None
   \<and> DiscordUser_match ''<123>'' = None
   \<and> DiscordRole_match ''<@123>'' = None
   \<and> (DiscordUser_match s = Some cap) =
     (\<exists>ds rest. list_all is_digit ds \<and>
        ((s = ''<@'' @ ds @ ''>'' @ rest \<and> cap = [Some (''<@'' @ ds @ ''>''), Some ds])
         \<or> (s = ''<@!'' @ ds @ ''>'' @ rest \<and> cap = [Some (''<@!'' @ ds @ ''>''), Some ds])))
   \<and> (DiscordChannel_match s = Some cap) =
     (\<exists>ds rest. list_all is_digit ds \<and>
        ((s = ''<'' @ ds @ ''>'' @ rest \<and> cap = [Some (''<'' @ ds @ ''>''), Some ds])
         \<or> (s = ''<#'' @ ds @ ''>'' @ rest \<and> cap = [Some (''<#'' @ ds @ ''>''), Some ds])))
   \<and> (DiscordRole_match s = Some cap) =
     (\<exists>ds rest. list_all is_digit ds \<and> s = ''<@&'' @ ds @ ''>'' @ rest
        \<and> cap = [Some (''<@&'' @ ds @ ''>''), Some ds])
   \<and> to_html (Suc (Suc n)) env ''<123>''
        (Some (opts\<lparr>discord_only := Some True, opt_discord_callback := None\<rparr>)) None None
      = Inr ''<span class="d-mention d-channel">#123</span>''
   \<and> to_html (Suc (Suc n)) env ''<@>''
        (Some (opts\<lparr>discord_only := Some True, opt_discord_callback := None\<rparr>)) None None
      = Inr ''<span class="d-mention d-user">@</span>''\<close>
proof -
  let ?o = "Some (opts\<lparr>discord_only := Some True, opt_discord_callback := None\<rparr>)"
  have m: "DiscordUser_match ''<@>'' = Some [Some ''<@>'', Some []]"
    "DiscordUser_match ''<@!>'' = Some [Some ''<@!>'', Some []]"
    "DiscordRole_match ''<@&>'' = Some [Some ''<@&>'', Some []]"
    "DiscordChannel_match ''<#>'' = Some [Some ''<#>'', Some []]"
    "DiscordChannel_match ''<123>'' = Some [Some ''<123>'', Some ''123'']"
    "DiscordChannel_match ''<>'' = Some [Some ''<>'', Some []]"
    "DiscordUser_match ''<123>'' = None"
    "DiscordRole_match ''<@123>'' = None"
    by (simp_all add: DiscordUser_match_def DiscordChannel_match_def DiscordRole_match_def
        id_close_def is_digit_def)
  have e: "DiscordEmoji_match ''<:wave:>'' = None"
    by (simp add: DiscordEmoji_match_def emoji_tail_def is_word_def is_digit_def Let_def)
  have cb1: "discord_callback ((initial_state ?o)\<lparr>prev_capture := ''<123>''\<rparr>) ''channel''
               = Some (id_callback ''#'')"
    by (simp add: initial_state_def discord_callback_defaults_def)
  have cb2: "discord_callback ((initial_state ?o)\<lparr>prev_capture := ''<@>''\<rparr>) ''user''
               = Some (id_callback ''@'')"
    by (simp add: initial_state_def discord_callback_defaults_def)
  have r1: "html_output_discord (Suc (Suc n)) env
              (VList [VDict [(''id'', VStr ''123''), (''type'', VStr ''discord_channel'')]])
              ((initial_state ?o)\<lparr>prev_capture := ''<123>''\<rparr>)
            = Inr (''<span class='' @ [CHR 0x22] @ ''d-mention d-channel'' @ [CHR 0x22] @ ''>''
                     @ ''#123'' @ ''</span>'')"
    by (rule html_output_discord_channel [OF cb1]) (simp add: id_callback_def sanitize_text_def)
  have r2: "html_output_discord (Suc (Suc n)) env
              (VList [VDict [(''id'', VStr []), (''type'', VStr ''discord_user'')]])
              ((initial_state ?o)\<lparr>prev_capture := ''<@>''\<rparr>)
            = Inr (''<span class='' @ [CHR 0x22] @ ''d-mention d-user'' @ [CHR 0x22] @ ''>''
                     @ ''@'' @ ''</span>'')"
    by (rule html_output_discord_user [OF cb2]) (simp add: id_callback_def sanitize_text_def)
  have t: \<open>to_html (Suc (Suc n)) env ''<123>'' ?o None None
      = Inr ''<span class="d-mention d-channel">#123</span>''
   \<and> to_html (Suc (Suc n)) env ''<@>'' ?o None None
      = Inr ''<span class="d-mention d-user">@</span>''\<close>
    using r1 r2
    by (simp add: to_html_def parser_discord_channel_123 [OF o] parser_discord_user_empty [OF o])
  show ?thesis
    using m e t DiscordUser_match_iff [of s cap] DiscordChannel_match_iff [of s cap]
      DiscordRole_match_iff [of s cap]
    by (intro conjI) (simp_all only: simp_thms)
qed

theorem C7_mention_without_id_or_sign_witness:
  \<open>rule_order (default_rules sample_environment ''strong'')
     < rule_order (default_rules sample_environment ''text'')
   \<and> to_html 2 sample_environment ''<123>''
       (Some \<lparr>embed = None, opt_escape_html = None, discord_only = Some True,
              opt_discord_callback = None, opt_css_module_names = None\<rparr>) None None
      = Inr ''<span class="d-mention d-channel">#123</span>''
   \<and> to_html 2 sample_environment ''<@>''
       (Some \<lparr>embed = None, opt_escape_html = None, discord_only = Some True,
              opt_discord_callback = None, opt_css_module_names = None\<rparr>) None None
      = Inr ''<span class="d-mention d-user">@</span>''\<close>
proof -
  have h: "rule_order (default_rules sample_environment ''strong'')
     < rule_order (default_rules sample_environment ''text'')"
    by (simp add: sample_environment_def sample_rule_def)
  show ?thesis
    using h C7_mention_without_id_or_sign [OF h, where n = 0 and opts = no_options]
    by (simp add: no_options_def numeral_2_eq_2)
qed

text \<open>
  C8. With the default options and the full table, \<^verbatim>\<open>to_html\<close> renders \<^verbatim>\<open><a:wave:999>\<close>
  as one unclosed \<^verbatim>\<open>img\<close> tag whose class holds \<^verbatim>\<open>d-emoji-animated\<close>, whose \<^verbatim>\<open>src\<close>
  ends in \<^verbatim>\<open>999.gif\<close> and whose \<^verbatim>\<open>alt\<close> is \<^verbatim>\<open>:wave:\<close>, and \<^verbatim>\<open><:wave:999>\<close> as one with
  \<^verbatim>\<open>999.png\<close> and the class \<^verbatim>\<open>d-emoji\<close> alone, for every recursion bound of two or more;
  so it does with the mentions-only table. The emoji rule has the order of \<^verbatim>\<open>strong\<close>; the
  conditions are that the base package puts \<^verbatim>\<open>strong\<close> before \<^verbatim>\<open>text\<close> and that its own
  rules match neither token. The steps of the rule are given as well: the capture, the node
  with its \<^verbatim>\<open>animated\<close> flag, and the tag.
\<close>

theorem C8_emoji_rendered_by_default:
  assumes o: "rule_order (default_rules env ''strong'') < rule_order (default_rules env ''text'')"
    and s1: "base_silent env ''<a:wave:999>''" and s2: "base_silent env ''<:wave:999>''"
  shows \<open>to_html (Suc (Suc n)) env ''<a:wave:999>'' None None None
      = Inr ''<img class="d-emoji d-emoji-animated" src="https://cdn.discordapp.com/emojis/999.gif" alt=":wave:">''
   \<and> to_html (Suc (Suc n)) env ''<:wave:999>'' None None None
      = Inr ''<img class="d-emoji" src="https://cdn.discordapp.com/emojis/999.png" alt=":wave:">''
   \<and> parser (Suc n) env ''<a:wave:999>'' st
      = Inr (VList [VDict [(''animated'', VBool True), (''name'', VStr ''wave''), (''id'', VStr ''999''),
                           (''type'', VStr ''discord_emoji'')]],
             st\<lparr>prev_capture := ''<a:wave:999>''\<rparr>)
   \<and> parser (Suc n) env ''<:wave:999>'' st
      = Inr (VList [VDict [(''animated'', VBool False), (''name'', VStr ''wave''), (''id'', VStr ''999''),
                           (''type'', VStr ''discord_emoji'')]],
             st\<lparr>prev_capture := ''<:wave:999>''\<rparr>)
   \<and> DiscordEmoji_match ''<a:wave:999>''
      = Some [Some ''<a:wave:999>'', Some ''a'', Some ''wave'', Some ''999'']
   \<and> DiscordEmoji_parse [Some ''<a:wave:999>'', Some ''a'', Some ''wave'', Some ''999''] parse st
      = Inr (VDict [(''animated'', VBool True), (''name'', VStr ''wave''), (''id'', VStr ''999'')], st)
   \<and> DiscordEmoji_html
        (VDict [(''animated'', VBool True), (''name'', VStr ''wave''), (''id'', VStr ''999''),
                (''type'', VStr ''discord_emoji'')])
        output (st\<lparr>css_module_names := None\<rparr>)
      = Inr ''<img class="d-emoji d-emoji-animated" src="https://cdn.discordapp.com/emojis/999.gif" alt=":wave:">''
   \<and> DiscordEmoji_match ''<:wave:999>''
      = Some [Some ''<:wave:999>'', Some [], Some ''wave'', Some ''999'']
   \<and> DiscordEmoji_parse [Some ''<:wave:999>'', Some [], Some ''wave'', Some ''999''] parse st
      = Inr (VDict [(''animated'', VBool False), (''name'', VStr ''wave''), (''id'', VStr ''999'')], st)
   \<and> DiscordEmoji_html
        (VDict [(''animated'', VBool False), (''name'', VStr ''wave''), (''id'', VStr ''999''),
                (''type'', VStr ''discord_emoji'')])
        output (st\<lparr>css_module_names := None\<rparr>)
      = Inr ''<img class="d-emoji" src="https://cdn.discordapp.com/emojis/999.png" alt=":wave:">''
   \<and> to_html (Suc (Suc n)) env ''<a:wave:999>''
        (Some (opts\<lparr>discord_only := Some True, opt_css_module_names := None\<rparr>)) None None
      = Inr ''<img class="d-emoji d-emoji-animated" src="https://cdn.discordapp.com/emojis/999.gif" alt=":wave:">''
   \<and> to_html (Suc (Suc n)) env ''<:wave:999>''
        (Some (opts\<lparr>discord_only := Some True, opt_css_module_names := None\<rparr>)) None None
      = Inr ''<img class="d-emoji" src="https://cdn.discordapp.com/emojis/999.png" alt=":wave:">''\<close>
proof -
  let ?o = "Some (opts\<lparr>discord_only := Some True, opt_css_module_names := None\<rparr>)"
  have p1: "DiscordEmoji_parse [Some ''<a:wave:999>'', Some ''a'', Some ''wave'', Some ''999''] parse st
      = Inr (VDict [(''animated'', VBool True), (''name'', VStr ''wave''), (''id'', VStr ''999'')], st)"
    by (simp add: DiscordEmoji_parse_def group_val_def)
  have p2: "DiscordEmoji_parse [Some ''<:wave:999>'', Some [], Some ''wave'', Some ''999''] parse st
      = Inr (VDict [(''animated'', VBool False), (''name'', VStr ''wave''), (''id'', VStr ''999'')], st)"
    by (simp add: DiscordEmoji_parse_def group_val_def)
  have a: "html_output_discord (Suc (Suc n)) env
           (VList [VDict [(''animated'', VBool True), (''name'', VStr ''wave''), (''id'', VStr ''999''),
                        (''type'', VStr ''discord_emoji'')]])
           ((initial_state ?o)\<lparr>prev_capture := ''<a:wave:999>''\<rparr>)
      = Inr (''<img class='' @ [CHR 0x22] @ ''d-emoji d-emoji-animated'' @ [CHR 0x22]
             @ '' src='' @ [CHR 0x22] @ ''https://cdn.discordapp.com/emojis/999.gif'' @ [CHR 0x22]
             @ '' alt='' @ [CHR 0x22] @ '':wave:'' @ [CHR 0x22] @ ''>'')"
    apply (rule html_output_discord_emoji)
    apply (subst initial_state_no_css)
    apply (subst emoji_html_animated)
    apply simp
    done
  have b: "html_output_discord (Suc (Suc n)) env
           (VList [VDict [(''animated'', VBool False), (''name'', VStr ''wave''), (''id'', VStr ''999''),
                        (''type'', VStr ''discord_emoji'')]])
           ((initial_state ?o)\<lparr>prev_capture := ''<:wave:999>''\<rparr>)
      = Inr (''<img class='' @ [CHR 0x22] @ ''d-emoji'' @ [CHR 0x22]
             @ '' src='' @ [CHR 0x22] @ ''https://cdn.discordapp.com/emojis/999.png'' @ [CHR 0x22]
             @ '' alt='' @ [CHR 0x22] @ '':wave:'' @ [CHR 0x22] @ ''>'')"
    apply (rule html_output_discord_emoji)
    apply (subst initial_state_no_css)
    apply (subst emoji_html_still)
    apply simp
    done
  have t: \<open>to_html (Suc (Suc n)) env ''<a:wave:999>'' ?o None None
      = Inr ''<img class="d-emoji d-emoji-animated" src="https://cdn.discordapp.com/emojis/999.gif" alt=":wave:">''
   \<and> to_html (Suc (Suc n)) env ''<:wave:999>'' ?o None None
      = Inr ''<img class="d-emoji" src="https://cdn.discordapp.com/emojis/999.png" alt=":wave:">''\<close>
    using a b
    by (simp add: to_html_def parser_discord_emoji_animated [OF o]
        parser_discord_emoji_still [OF o])
  show ?thesis
    using to_html_emoji_default [OF o s1 s2, of n]
      parser_emoji_animated [OF o s1, of n st] parser_emoji_still [OF o s2, of n st]
      emoji_match_animated emoji_match_still p1 p2
      emoji_html_animated emoji_html_still t
    by (intro conjI) simp_all
qed

theorem C8_emoji_rendered_by_default_witness:
  \<open>rule_order (default_rules sample_environment ''strong'')
     < rule_order (default_rules sample_environment ''text'')
   \<and> base_silent sample_environment ''<a:wave:999>''
   \<and> base_silent sample_environment ''<:wave:999>''
   \<and> to_html 2 sample_environment ''<a:wave:999>'' None None None
      = Inr ''<img class="d-emoji d-emoji-animated" src="https://cdn.discordapp.com/emojis/999.gif" alt=":wave:">''
   \<and> to_html 2 sample_environment ''<:wave:999>'' None None None
      = Inr ''<img class="d-emoji" src="https://cdn.discordapp.com/emojis/999.png" alt=":wave:">''\<close>
proof -
  have h: "rule_order (default_rules sample_environment ''strong'')
     < rule_order (default_rules sample_environment ''text'')"
    by (simp add: sample_environment_def sample_rule_def)
  show ?thesis
    using h sample_silent
      C8_emoji_rendered_by_default [OF h sample_silent sample_silent, where n = 0]
    by (simp add: numeral_2_eq_2)
qed

text \<open>
  C9. On every non-empty source the Text rule matches, and its capture is a non-empty prefix of
  the source. So the search for a rule never comes back empty on a non-empty source, in the
  full table, in the mentions-only table, in the embed table, and in every table that holds
  the Text rule, whatever the other rules are.
\<close>

theorem C9_text_rule_always_matches:
  assumes "source \<noteq> []"
  shows "(\<exists>text. Text_match source = Some [Some text] \<and> text \<noteq> []
            \<and> take (length text) source = text)
    \<and> find_rule (by_order (rules env)) source st \<noteq> Inr None
    \<and> find_rule (by_order (rules_discord_only env)) source st \<noteq> Inr None
    \<and> find_rule (by_order (rules_embed env)) source st \<noteq> Inr None
    \<and> (\<forall>table name. (name, Text env) \<in> set table \<longrightarrow>
          find_rule (by_order table) source st \<noteq> Inr None)"
proof -
  obtain c r where s: "source = c # r" using assms by (cases source) auto
  have m: "Text_match source = Some [Some (c # take (text_scan r) r)]"
    by (simp add: Text_match_def s)
  have tm: "rule_match (Text env) source st (prev_capture st)
              = Inr (Some [Some (c # take (text_scan r) r)])"
    by (simp add: Text_def m)
  have gen: "find_rule (by_order table) source st \<noteq> Inr None" if "(name, Text env) \<in> set table"
    for table name
    using find_rule_matching_entry [OF _ tm, of name "by_order table"] that
    by (simp add: set_by_order)
  have pre: "take (length (c # take (text_scan r) r)) source = c # take (text_scan r) r"
    by (simp add: s min_def)
  have full: "find_rule (by_order (rules env)) source st \<noteq> Inr None"
    by (rule gen [OF text_in_rules])
  have only: "find_rule (by_order (rules_discord_only env)) source st \<noteq> Inr None"
    by (rule gen [OF text_in_discord_only])
  have embed: "find_rule (by_order (rules_embed env)) source st \<noteq> Inr None"
    by (rule gen [OF text_in_rules_embed])
  show ?thesis using m pre gen full only embed by blast
qed

theorem C9_text_rule_always_matches_witness:
  "''<@x'' \<noteq> []
   \<and> Text_match ''<@x'' = Some [Some ''<'']
   \<and> find_rule (by_order (rules sample_environment)) ''<@x'' (initial_state None) \<noteq> Inr None
   \<and> find_rule (by_order (rules_discord_only sample_environment)) ''<@x'' (initial_state None)
       \<noteq> Inr None
   \<and> find_rule (by_order (rules_embed sample_environment)) ''<@x'' (initial_state None)
       \<noteq> Inr None"
proof -
  have ne: "''<@x'' \<noteq> []" by simp
  have t: "Text_match ''<@x'' = Some [Some ''<'']"
    by (simp add: Text_match_def text_lookahead_def text_special_def is_space_def)
  show ?thesis
    using C9_text_rule_always_matches [OF ne, of sample_environment "initial_state None"] t
    by simp
qed


end
